theory Spec2Isabelle
  imports Complex_Main "HOL-Library.Log_Nat"
begin

section \<open>JavaScript numbers\<close>

text \<open>
  The application computes three quotients in JavaScript's \<open>number\<close> type, which is
  IEEE-754 binary64 with round-to-nearest, ties-to-even: \<open>score / total\<close>,
  \<open>sum / (length * 5) * 100\<close> and \<open>(now - start) / 60000\<close>.  A finite double is a
  rational number, so a double is modelled by the rational it denotes and each
  arithmetic operation is the exact operation followed by the rounding \<open>fl\<close> to
  the nearest double.  Overflow to \<open>Infinity\<close> (magnitudes from \<open>2^1024\<close>) is
  outside the model; the divisions by zero that give \<open>NaN\<close> or \<open>Infinity\<close> are
  written out where the code can meet them.
\<close>

definition ilog2 :: "rat \<Rightarrow> int" where
  \<comment> \<open>for \<open>0 < x\<close>: the exponent \<open>e\<close> with \<open>2^e \<le> x < 2^(e+1)\<close>\<close>
  "ilog2 x =
     (let (p, q) = quotient_of x; e0 = bitlen p - bitlen q
      in if 2 powi e0 \<le> x then e0 else e0 - 1)"

definition rne :: "rat \<Rightarrow> int" where
  \<comment> \<open>round to the nearest integer, a tie to the even one\<close>
  "rne x =
     (let f = \<lfloor>x\<rfloor>; r = x - of_int f
      in if r < 1 / 2 then f else if 1 / 2 < r then f + 1
         else if even f then f else f + 1)"

definition ulp :: "rat \<Rightarrow> rat" where
  \<comment> \<open>the spacing of the doubles around \<open>x \<noteq> 0\<close>: 53 significant bits, and the
      subnormal spacing \<open>2^-1074\<close> below \<open>2^-1022\<close>\<close>
  "ulp x = 2 powi (max (ilog2 \<bar>x\<bar>) (- 1022) - 52)"

definition fl :: "rat \<Rightarrow> rat" where
  "fl x = (if x = 0 then 0 else sgn x * of_int (rne (\<bar>x\<bar> / ulp x)) * ulp x)"

definition js_div :: "rat \<Rightarrow> rat \<Rightarrow> rat" where
  \<comment> \<open>\<open>a / b\<close> on doubles, for \<open>b \<noteq> 0\<close>\<close>
  "js_div a b = fl (a / b)"

definition js_mul :: "rat \<Rightarrow> rat \<Rightarrow> rat" where
  "js_mul a b = fl (a * b)"

definition Math_round :: "rat \<Rightarrow> int" where
  \<comment> \<open>\<open>Math.round\<close>: the nearest integer, a tie towards \<open>+\<infinity>\<close>\<close>
  "Math_round x = \<lfloor>x + 1 / 2\<rfloor>"

section \<open>Data model (types.ts)\<close>

datatype KnowledgeLevel = BEGINNER | INTERMEDIATE | ADVANCED

datatype LearningGoal = EXAM_PREP | CONCEPT_UNDERSTANDING | SKILL_BUILDING

datatype LearningStyle = TEXT | VIDEO | QUIZZES | MIXED

datatype SessionFeedback = Easy | Medium | Hard

record PerformanceData =
  quizScores :: "nat list"
  timeSpentMinutes :: int
  lastFeedback :: "SessionFeedback option"
  completedTopics :: "string list"
  averageAccuracy :: int

record UserProfile =
  name :: string
  classInfo :: string
  subject :: string
  level :: KnowledgeLevel
  goal :: LearningGoal
  style :: LearningStyle
  timePerDay :: nat
  topic :: string
  language :: string
  performance :: PerformanceData

datatype ModuleStatus = Locked | Current | Completed

record Source =
  uri :: string
  src_title :: string

record Module =
  mod_id :: string
  title :: string
  description :: string
  status :: ModuleStatus
  topics :: "string list"
  videoUrl :: "string option"
  sources :: "Source list option"

record LearningPath =
  modules :: "Module list"
  estimatedWeeks :: rat
  personalizedReasoning :: string

record QuizQuestion =
  question :: string
  options :: "string list"
  correctAnswer :: int
  explanation :: string

record Quiz =
  quiz_title :: string
  questions :: "QuizQuestion list"

text \<open>
  TypeScript's \<open>number\<close> is read at the values the program puts there: quiz scores
  and the minutes per day are counts, the minutes spent and the average accuracy are
  results of \<open>Math.round\<close>, and an answer is the index of an option button.
  \<open>correctAnswer\<close> comes from the gateway; a value that is not a whole number
  could equal no answer and is not represented.
\<close>

text \<open>
  What a \<open>throw\<close> or a rejected promise carries: the \<open>SyntaxError\<close> of
  \<open>JSON.parse\<close>, the \<open>TypeError\<close> of a property read on \<open>undefined\<close>, and
  a failed request to the generative-AI service.
\<close>

datatype error = SyntaxError | TypeError | RequestFailed

section \<open>The AI gateway (services/geminiService.ts)\<close>

text \<open>
  The request itself is outside the program.  What the \<open>try\<close> block of
  \<open>generateLearningPath\<close> obtains is taken as an argument: \<open>Inl e\<close> when anything
  inside the block throws (the request, \<open>JSON.parse\<close>, or \<open>path.modules.map\<close>
  on a reply without modules), otherwise the parsed reply with its grounding chunks.
  The modules of a reply are read as \<open>Module\<close> records whose \<open>status\<close> and
  \<open>sources\<close> the function overwrites.
\<close>

record GroundingChunk =
  web_uri :: "string option"
  web_title :: "string option"

record PathResponse =
  parsed :: LearningPath
  groundingChunks :: "GroundingChunk list"

definition chunk_source :: "GroundingChunk \<Rightarrow> Source" where
  \<comment> \<open>\<open>{ uri: chunk.web?.uri || "", title: chunk.web?.title || "Educational Context" }\<close>\<close>
  "chunk_source chunk =
     \<lparr>uri = (case web_uri chunk of Some u \<Rightarrow> u | None \<Rightarrow> ''''),
      src_title = (case web_title chunk of
                     Some t \<Rightarrow> if t = '''' then ''Educational Context'' else t
                   | None \<Rightarrow> ''Educational Context'')\<rparr>"

definition fallbackPath :: "UserProfile \<Rightarrow> LearningPath" where
  \<comment> \<open>the object returned by the \<open>catch\<close> block\<close>
  "fallbackPath profile =
     \<lparr>modules =
        [\<lparr>mod_id = ''m1'',
          title = ''Foundations of '' @ topic profile,
          description = ''A comprehensive overview of the fundamental principles.'',
          status = Current,
          topics = [''Terminology'', ''Core Concepts'', ''Introductory Theory''],
          videoUrl = Some ''https://www.youtube.com/watch?v=0pThnRneDjw'',
          sources = None\<rparr>],
      estimatedWeeks = 4,
      personalizedReasoning =
        ''Fallback sequence activated due to search constraints. Focusing on core mastery.''\<rparr>"

definition generateLearningPath :: "UserProfile \<Rightarrow> error + PathResponse \<Rightarrow> LearningPath" where
  "generateLearningPath profile response =
     (case response of
        Inr r \<Rightarrow>
          (let path = parsed r;
               srcs = filter (\<lambda>s. uri s \<noteq> '''') (map chunk_source (groundingChunks r))
           in path\<lparr>modules :=
                map (\<lambda>m. m\<lparr>status := Current,
                            sources := (if 0 < length srcs then Some srcs else None)\<rparr>)
                    (modules path)\<rparr>)
      | Inl e \<Rightarrow> fallbackPath profile)"

definition getRelatedCourseSuggestions :: "UserProfile \<Rightarrow> error + string list \<Rightarrow> string list" where
  "getRelatedCourseSuggestions profile response =
     (case response of
        Inr titles \<Rightarrow> titles
      | Inl e \<Rightarrow>
          [''Advanced '' @ topic profile @ '' Strategies'',
           ''The Ethics of '' @ topic profile,
           ''Practical '' @ topic profile @ '' Applications'',
           ''Future Trends in '' @ topic profile,
           topic profile @ '' Masterclass''])"

section \<open>The session state machine (App.tsx)\<close>

datatype View = WELCOME | ONBOARDING | DASHBOARD | TUTORING | QUIZ | FEEDBACK

text \<open>
  The component state of \<open>App\<close>, the \<open>sessionStartTime\<close> ref and the browser's
  \<open>localStorage\<close> (keys and values are strings).
\<close>

record AppState =
  view :: View
  profile :: "UserProfile option"
  learningPath :: "LearningPath option"
  suggestedTitles :: "string list"
  currentModule :: "Module option"
  isLoading :: bool
  loadingMsg :: string
  activeQuiz :: "Quiz option"
  sessionStartTime :: int
  localStorage :: "string \<rightharpoonup> string"

text \<open>
  \<open>JSON.stringify\<close> and \<open>JSON.parse\<close> are platform functions; the handlers take
  them as an argument.  \<open>parse_profile\<close> and \<open>parse_path\<close> are \<open>JSON.parse\<close> read
  at the type the code uses the result at: \<open>Inl\<close> is the exception thrown for a text
  that is not JSON (and, for the path, the \<open>TypeError\<close> of \<open>path.modules[0]\<close>
  when the parsed value has no modules).
\<close>

record Json =
  stringify_profile :: "UserProfile \<Rightarrow> string"
  stringify_path :: "LearningPath \<Rightarrow> string"
  parse_profile :: "string \<Rightarrow> error + UserProfile"
  parse_path :: "string \<Rightarrow> error + LearningPath"

definition initialState :: "(string \<rightharpoonup> string) \<Rightarrow> AppState" where
  \<comment> \<open>the \<open>useState\<close> initial values\<close>
  "initialState store =
     \<lparr>view = WELCOME, profile = None, learningPath = None, suggestedTitles = [],
      currentModule = None, isLoading = False, loadingMsg = ''Initializing...'',
      activeQuiz = None, sessionStartTime = 0, localStorage = store\<rparr>"

definition first_module :: "LearningPath \<Rightarrow> Module option" where
  \<comment> \<open>\<open>path.modules[0]\<close>: \<open>undefined\<close> on an empty array\<close>
  "first_module path = (case modules path of [] \<Rightarrow> None | m # ms \<Rightarrow> Some m)"

definition truthy :: "string option \<Rightarrow> bool" where
  \<comment> \<open>\<open>getItem\<close> gives \<open>null\<close> for a missing key; \<open>null\<close> and \<open>""\<close> are falsy\<close>
  "truthy v = (case v of None \<Rightarrow> False | Some t \<Rightarrow> t \<noteq> '''')"

definition restoreSession :: "Json \<Rightarrow> error + string list \<Rightarrow> AppState \<Rightarrow> error + AppState" where
  \<comment> \<open>the mount effect; \<open>Inl\<close> is an exception that leaves the effect uncaught\<close>
  "restoreSession J suggestions s =
     (let savedProfile = localStorage s ''edupal_profile'';
          savedPath = localStorage s ''edupal_path''
      in if truthy savedProfile \<and> truthy savedPath then
           (case parse_profile J (the savedProfile) of
              Inl e \<Rightarrow> Inl e
            | Inr p \<Rightarrow>
               (case parse_path J (the savedPath) of
                  Inl e \<Rightarrow> Inl e
                | Inr path \<Rightarrow>
                    Inr (s\<lparr>profile := Some p, learningPath := Some path,
                           currentModule := first_module path, view := DASHBOARD,
                           suggestedTitles := getRelatedCourseSuggestions p suggestions\<rparr>)))
         else Inr s)"

definition saveState :: "Json \<Rightarrow> UserProfile \<Rightarrow> LearningPath \<Rightarrow> (string \<rightharpoonup> string) \<Rightarrow> (string \<rightharpoonup> string)" where
  "saveState J newProfile newPath store =
     store(''edupal_profile'' \<mapsto> stringify_profile J newProfile,
           ''edupal_path'' \<mapsto> stringify_path J newPath)"

text \<open>
  The two handlers that await \<open>generateLearningPath\<close> do so inside
  \<open>try \<dots> catch \<dots> finally\<close>.  The awaited call is the argument \<open>synth\<close>, a
  function of the profile it is called with; \<open>Inl\<close> is a rejected promise and takes
  the \<open>catch\<close> branch.  The reply to \<open>getRelatedCourseSuggestions\<close> is the
  argument \<open>suggestions\<close>; where the source does not await \<open>loadSuggestions\<close>
  the titles arrive later, and the model sets them in the same step.
\<close>

definition handleOnboardingComplete ::
  "Json \<Rightarrow> (UserProfile \<Rightarrow> error + LearningPath) \<Rightarrow> error + string list \<Rightarrow> UserProfile \<Rightarrow> AppState \<Rightarrow> AppState" where
  "handleOnboardingComplete J synth suggestions userData s =
     (let s1 = s\<lparr>isLoading := True,
                 loadingMsg := ''Synthesizing Personalized Curriculum...'',
                 profile := Some userData\<rparr>
      in case synth userData of
           Inr path \<Rightarrow>
             s1\<lparr>learningPath := Some path,
                currentModule := first_module path,
                localStorage := saveState J userData path (localStorage s1),
                suggestedTitles := getRelatedCourseSuggestions userData suggestions,
                view := DASHBOARD,
                isLoading := False\<rparr>
         | Inl e \<Rightarrow> s1\<lparr>isLoading := False\<rparr>)"

definition handleSelectSuggested ::
  "Json \<Rightarrow> (UserProfile \<Rightarrow> error + LearningPath) \<Rightarrow> error + string list \<Rightarrow> string \<Rightarrow> AppState \<Rightarrow> AppState" where
  "handleSelectSuggested J synth suggestions newTopic s =
     (case profile s of
        None \<Rightarrow> s
      | Some p \<Rightarrow>
          (let newProfile = p\<lparr>topic := newTopic\<rparr>;
               s1 = s\<lparr>isLoading := True,
                      loadingMsg := ''Architecting '' @ [CHR 0x22] @ newTopic @ [CHR 0x22] @ ''...'',
                      profile := Some newProfile\<rparr>
           in case synth newProfile of
                Inr path \<Rightarrow>
                  s1\<lparr>learningPath := Some path,
                     currentModule := first_module path,
                     localStorage := saveState J newProfile path (localStorage s1),
                     suggestedTitles := getRelatedCourseSuggestions newProfile suggestions,
                     view := DASHBOARD,
                     isLoading := False\<rparr>
              | Inl e \<Rightarrow> s1\<lparr>isLoading := False\<rparr>))"

text \<open>
  As wired in the application, the awaited call is \<open>generateLearningPath\<close>, whose
  own \<open>catch\<close> block turns every failure of the gateway into the fallback path.
\<close>

definition synthesizePath :: "error + PathResponse \<Rightarrow> UserProfile \<Rightarrow> error + LearningPath" where
  "synthesizePath response p = Inr (generateLearningPath p response)"

definition completeOnboarding ::
  "Json \<Rightarrow> error + PathResponse \<Rightarrow> error + string list \<Rightarrow> UserProfile \<Rightarrow> AppState \<Rightarrow> AppState" where
  "completeOnboarding J response suggestions userData s =
     handleOnboardingComplete J (synthesizePath response) suggestions userData s"

definition selectSuggestedTopic ::
  "Json \<Rightarrow> error + PathResponse \<Rightarrow> error + string list \<Rightarrow> string \<Rightarrow> AppState \<Rightarrow> AppState" where
  "selectSuggestedTopic J response suggestions newTopic s =
     handleSelectSuggested J (synthesizePath response) suggestions newTopic s"

definition handleSelectModule :: "Module \<Rightarrow> int \<Rightarrow> AppState \<Rightarrow> AppState" where
  \<comment> \<open>\<open>now\<close> is the value of \<open>Date.now()\<close>, in milliseconds\<close>
  "handleSelectModule m now s =
     s\<lparr>currentModule := Some m, sessionStartTime := now, view := TUTORING\<rparr>"

definition elapsedMinutes :: "int \<Rightarrow> int \<Rightarrow> int" where
  \<comment> \<open>\<open>Math.round((Date.now() - sessionStartTime.current) / 60000)\<close>\<close>
  "elapsedMinutes now start = Math_round (js_div (of_int (now - start)) 60000)"

definition handleEndSession :: "int \<Rightarrow> AppState \<Rightarrow> AppState" where
  "handleEndSession now s =
     (let elapsed = elapsedMinutes now (sessionStartTime s);
          s1 = (case profile s of
                  Some p \<Rightarrow>
                    s\<lparr>profile := Some (p\<lparr>performance := (performance p)
                         \<lparr>timeSpentMinutes :=
                            (if timeSpentMinutes (performance p) = 0 then 0
                             else timeSpentMinutes (performance p)) + elapsed\<rparr>\<rparr>)\<rparr>
                | None \<Rightarrow> s)
      in s1\<lparr>view := FEEDBACK\<rparr>)"

definition submitFeedback :: "Json \<Rightarrow> SessionFeedback \<Rightarrow> AppState \<Rightarrow> AppState" where
  "submitFeedback J feedback s =
     (let s1 = (case (profile s, learningPath s) of
                  (Some p, Some path) \<Rightarrow>
                    (let updatedProfile = p\<lparr>performance := (performance p)\<lparr>lastFeedback := Some feedback\<rparr>\<rparr>
                     in s\<lparr>profile := Some updatedProfile,
                          localStorage := saveState J updatedProfile path (localStorage s)\<rparr>)
                | _ \<Rightarrow> s)
      in s1\<lparr>view := DASHBOARD\<rparr>)"

definition startQuiz :: "(UserProfile \<Rightarrow> string \<Rightarrow> error + Quiz) \<Rightarrow> AppState \<Rightarrow> AppState" where
  \<comment> \<open>\<open>generateQuiz\<close> has no \<open>catch\<close> of its own: its rejection reaches this handler\<close>
  "startQuiz generateQuiz s =
     (case (profile s, currentModule s) of
        (Some p, Some m) \<Rightarrow>
          (let s1 = s\<lparr>isLoading := True, loadingMsg := ''Generating Assessment...''\<rparr>
           in case generateQuiz p (title m) of
                Inr quiz \<Rightarrow> s1\<lparr>activeQuiz := Some quiz, view := QUIZ, isLoading := False\<rparr>
              | Inl e \<Rightarrow> s1\<lparr>isLoading := False\<rparr>)
      | _ \<Rightarrow> s)"

definition passed_of :: "nat \<Rightarrow> nat \<Rightarrow> bool" where
  \<comment> \<open>\<open>(score / total) >= 0.8\<close>; for \<open>total = 0\<close> the quotient is \<open>Infinity\<close>
      (\<open>0 < score\<close>) or \<open>NaN\<close>, and \<open>NaN >= 0.8\<close> is false\<close>
  "passed_of score n_total =
     (if n_total = 0 then 0 < score
      else fl (4 / 5) \<le> js_div (of_nat score) (of_nat n_total))"

definition avgAccuracy_of :: "nat list \<Rightarrow> int" where
  \<comment> \<open>\<open>Math.round((currentScores.reduce((a, b) => a + b, 0) / (currentScores.length * 5)) * 100)\<close>,
      for a non-empty array\<close>
  "avgAccuracy_of currentScores =
     Math_round (js_mul (js_div (of_nat (foldl (+) 0 currentScores))
                                (of_nat (length currentScores * 5))) 100)"

definition handleQuizComplete :: "Json \<Rightarrow> nat \<Rightarrow> nat \<Rightarrow> AppState \<Rightarrow> AppState" where
  "handleQuizComplete J score n_total s =
     (case (learningPath s, currentModule s, profile s) of
        (Some path, Some cm, Some p) \<Rightarrow>
          (let passed = passed_of score n_total;
               newPath =
                 (if passed then
                    path\<lparr>modules :=
                      map (\<lambda>m. if mod_id m = mod_id cm then m\<lparr>status := Completed\<rparr> else m)
                          (modules path)\<rparr>
                  else path);
               currentScores = quizScores (performance p) @ [score];
               avgAccuracy = avgAccuracy_of currentScores;
               newProfile = p\<lparr>performance := (performance p)
                 \<lparr>quizScores := currentScores,
                  averageAccuracy := avgAccuracy,
                  completedTopics :=
                    (if passed then completedTopics (performance p) @ [title cm]
                     else completedTopics (performance p))\<rparr>\<rparr>
           in s\<lparr>learningPath := Some newPath,
                profile := Some newProfile,
                localStorage := saveState J newProfile newPath (localStorage s)\<rparr>)
      | _ \<Rightarrow> s)"

section \<open>The quiz view (QuizView in App.tsx)\<close>

record QuizViewState =
  currentIdx :: nat
  answers :: "nat list"
  showResult :: bool
  selected :: "nat option"

definition quizInit :: QuizViewState where
  "quizInit = \<lparr>currentIdx = 0, answers = [], showResult = False, selected = None\<rparr>"

fun reduce_score :: "QuizQuestion list \<Rightarrow> nat \<Rightarrow> nat \<Rightarrow> nat list \<Rightarrow> error + nat" where
  \<comment> \<open>\<open>reduce((acc, ans, i) => ans === quiz.questions[i].correctAnswer ? acc + 1 : acc, \<dots>)\<close>
      from accumulator \<open>acc\<close> and index \<open>i\<close>; \<open>quiz.questions[i]\<close> is \<open>undefined\<close>
      past the end, and reading its \<open>correctAnswer\<close> throws\<close>
  "reduce_score qs acc i [] = Inr acc"
| "reduce_score qs acc i (ans # rest) =
     (if i < length qs
      then reduce_score qs (if int ans = correctAnswer (qs ! i) then acc + 1 else acc) (i + 1) rest
      else Inl TypeError)"

definition handleNext :: "Quiz \<Rightarrow> QuizViewState \<Rightarrow> error + QuizViewState \<times> (nat \<times> nat) option" where
  \<comment> \<open>the second component is the call \<open>onComplete(s, quiz.questions.length)\<close>, if made\<close>
  "handleNext quiz q =
     (case selected q of
        None \<Rightarrow> Inr (q, None)
      | Some sel \<Rightarrow>
          (let newAnswers = answers q @ [sel];
               q1 = q\<lparr>answers := newAnswers, selected := None\<rparr>
           in if int (currentIdx q) < int (length (questions quiz)) - 1
              then Inr (q1\<lparr>currentIdx := currentIdx q + 1\<rparr>, None)
              else (case reduce_score (questions quiz) 0 0 newAnswers of
                      Inl e \<Rightarrow> Inl e
                    | Inr s \<Rightarrow> Inr (q1\<lparr>showResult := True\<rparr>, Some (s, length (questions quiz))))))"

text \<open>
  What the user can do in the quiz view: press an option button (\<open>setSelected(i)\<close>;
  the model admits every index \<open>i\<close>) or the button that calls \<open>handleNext\<close>.  Once
  \<open>showResult\<close> is set the component renders the result screen, which has neither.
\<close>

datatype QuizEvent = Select nat | Next

definition quiz_event :: "Quiz \<Rightarrow> QuizEvent \<Rightarrow> QuizViewState \<Rightarrow> error + QuizViewState \<times> (nat \<times> nat) option" where
  "quiz_event quiz ev q =
     (if showResult q then Inr (q, None)
      else case ev of
             Select i \<Rightarrow> Inr (q\<lparr>selected := Some i\<rparr>, None)
           | Next \<Rightarrow> handleNext quiz q)"

fun quiz_run :: "Quiz \<Rightarrow> QuizEvent list \<Rightarrow> QuizViewState \<Rightarrow> error + QuizViewState \<times> (nat \<times> nat) list" where
  \<comment> \<open>the view after a sequence of events, with the \<open>onComplete\<close> calls made on the way\<close>
  "quiz_run quiz [] q = Inr (q, [])"
| "quiz_run quiz (ev # evs) q =
     (case quiz_event quiz ev q of
        Inl e \<Rightarrow> Inl e
      | Inr (q', c) \<Rightarrow>
          (case quiz_run quiz evs q' of
             Inl e \<Rightarrow> Inl e
           | Inr (q'', cs) \<Rightarrow> Inr (q'', (case c of None \<Rightarrow> [] | Some x \<Rightarrow> [x]) @ cs)))"

definition answer_all :: "nat list \<Rightarrow> QuizEvent list" where
  \<comment> \<open>answering question after question: select an option, then press the button\<close>
  "answer_all sels = concat (map (\<lambda>a. [Select a, Next]) sels)"

definition completeQuiz :: "Json \<Rightarrow> Quiz \<Rightarrow> nat list \<Rightarrow> AppState \<Rightarrow> error + AppState" where
  \<comment> \<open>\<open>App\<close> mounts the view with \<open>onComplete={handleQuizComplete}\<close>\<close>
  "completeQuiz J quiz sels s =
     (case quiz_run quiz (answer_all sels) quizInit of
        Inl e \<Rightarrow> Inl e
      | Inr (q, calls) \<Rightarrow> Inr (foldl (\<lambda>s' (sc, t). handleQuizComplete J sc t s') s calls))"

definition count_correct :: "nat list \<Rightarrow> QuizQuestion list \<Rightarrow> nat" where
  \<comment> \<open>the number of positions where the recorded answer is the question's \<open>correctAnswer\<close>\<close>
  "count_correct as qs = length (filter (\<lambda>(a, q). int a = correctAnswer q) (zip as qs))"

section \<open>The onboarding view (OnboardingView in App.tsx)\<close>

text \<open>
  \<open>data\<close> is a \<open>Partial<UserProfile>\<close>: the four text fields are \<open>undefined\<close> until
  typed into, the others are set by the initial value.
\<close>

record OnboardingData =
  d_name :: "string option"
  d_classInfo :: "string option"
  d_subject :: "string option"
  d_level :: KnowledgeLevel
  d_goal :: LearningGoal
  d_style :: LearningStyle
  d_timePerDay :: nat
  d_topic :: "string option"
  d_language :: string
  d_performance :: PerformanceData

record OnboardingState =
  step :: int
  data :: OnboardingData

definition onboardingInit :: OnboardingState where
  "onboardingInit =
     \<lparr>step = 1,
      data = \<lparr>d_name = None, d_classInfo = None, d_subject = None,
              d_level = BEGINNER, d_goal = CONCEPT_UNDERSTANDING, d_style = MIXED,
              d_timePerDay = 1, d_topic = None, d_language = ''English'',
              d_performance = \<lparr>quizScores = [], timeSpentMinutes = 0, lastFeedback = None,
                               completedTopics = [], averageAccuracy = 0\<rparr>\<rparr>\<rparr>"

definition asUserProfile :: "OnboardingData \<Rightarrow> UserProfile option" where
  \<comment> \<open>\<open>data as UserProfile\<close>: a profile when no field is \<open>undefined\<close>\<close>
  "asUserProfile d =
     (case (d_name d, d_classInfo d, d_subject d, d_topic d) of
        (Some n, Some c, Some sb, Some t) \<Rightarrow>
          Some \<lparr>name = n, classInfo = c, subject = sb, level = d_level d, goal = d_goal d,
                style = d_style d, timePerDay = d_timePerDay d, topic = t,
                language = d_language d, performance = d_performance d\<rparr>
      | _ \<Rightarrow> None)"

datatype OnboardingEvent =
    SetName string | SetClassInfo string | SetSubject string
  | SetLevel KnowledgeLevel | SetTopic string
  | SetLanguage string | SetGoal LearningGoal
  | NextStep | PrevStep | Launch

definition onboarding_event :: "OnboardingEvent \<Rightarrow> OnboardingState \<Rightarrow> OnboardingState \<times> OnboardingData option" where
  \<comment> \<open>each step renders its own inputs and buttons; a disabled button does nothing;
      the second component is the argument of \<open>onComplete\<close>, if called\<close>
  "onboarding_event ev st =
     (let d = data st in
      if step st = 1 then
        (case ev of
           SetName v \<Rightarrow> (st\<lparr>data := d\<lparr>d_name := Some v\<rparr>\<rparr>, None)
         | SetClassInfo v \<Rightarrow> (st\<lparr>data := d\<lparr>d_classInfo := Some v\<rparr>\<rparr>, None)
         | SetSubject v \<Rightarrow> (st\<lparr>data := d\<lparr>d_subject := Some v\<rparr>\<rparr>, None)
         | NextStep \<Rightarrow>
             (if \<not> truthy (d_name d) \<or> \<not> truthy (d_classInfo d) \<or> \<not> truthy (d_subject d)
              then (st, None) else (st\<lparr>step := step st + 1\<rparr>, None))
         | _ \<Rightarrow> (st, None))
      else if step st = 2 then
        (case ev of
           SetLevel lvl \<Rightarrow> (st\<lparr>data := d\<lparr>d_level := lvl\<rparr>\<rparr>, None)
         | SetTopic v \<Rightarrow> (st\<lparr>data := d\<lparr>d_topic := Some v\<rparr>\<rparr>, None)
         | PrevStep \<Rightarrow> (st\<lparr>step := step st - 1\<rparr>, None)
         | NextStep \<Rightarrow>
             (if \<not> truthy (d_topic d) then (st, None) else (st\<lparr>step := step st + 1\<rparr>, None))
         | _ \<Rightarrow> (st, None))
      else if step st = 3 then
        (case ev of
           SetLanguage v \<Rightarrow> (st\<lparr>data := d\<lparr>d_language := v\<rparr>\<rparr>, None)
         | SetGoal g \<Rightarrow> (st\<lparr>data := d\<lparr>d_goal := g\<rparr>\<rparr>, None)
         | PrevStep \<Rightarrow> (st\<lparr>step := step st - 1\<rparr>, None)
         | Launch \<Rightarrow> (st, Some d)
         | _ \<Rightarrow> (st, None))
      else (st, None))"

fun onboarding_run :: "OnboardingEvent list \<Rightarrow> OnboardingState \<Rightarrow> OnboardingState \<times> OnboardingData list" where
  \<comment> \<open>the view after a sequence of events, with the arguments of the \<open>onComplete\<close> calls\<close>
  "onboarding_run [] st = (st, [])"
| "onboarding_run (ev # evs) st =
     (case onboarding_event ev st of
        (st', c) \<Rightarrow>
          (case onboarding_run evs st' of
             (st'', cs) \<Rightarrow> (st'', (case c of None \<Rightarrow> [] | Some x \<Rightarrow> [x]) @ cs)))"

section \<open>The application as a whole\<close>

text \<open>
  What the rendered tree lets the user do, event by event.  A view's buttons exist
  only while the view is rendered (\<open>DashboardView\<close> needs a profile and a path,
  \<open>TutorSessionView\<close> a profile and a current module, \<open>QuizView\<close> an active
  quiz); the header's logo is always there and leads to the dashboard once a profile
  exists; the header's sign-out button clears \<open>localStorage\<close> and reloads the page.
  While a handler awaits the gateway, the loading overlay covers the page, so a
  handler runs to its end before the next event.
\<close>

datatype AppEvent =
    Start
  | OnboardingComplete UserProfile "error + PathResponse" "error + string list"
  | SelectModule Module int
  | SelectSuggested string "error + PathResponse" "error + string list"
  | StartQuiz "error + Quiz"
  | EndSession int
  | SubmitFeedback SessionFeedback
  | QuizComplete nat nat
  | QuizBack
  | Home
  | SignOut

definition app_event :: "Json \<Rightarrow> AppEvent \<Rightarrow> AppState \<Rightarrow> AppState" where
  "app_event J ev s =
     (let dashboard = (view s = DASHBOARD \<and> profile s \<noteq> None \<and> learningPath s \<noteq> None) in
      case ev of
        Start \<Rightarrow> if view s = WELCOME then s\<lparr>view := ONBOARDING\<rparr> else s
      | OnboardingComplete userData response suggestions \<Rightarrow>
          if view s = ONBOARDING then completeOnboarding J response suggestions userData s else s
      | SelectModule m now \<Rightarrow>
          if dashboard \<and> (m \<in> set (modules (the (learningPath s))) \<or> currentModule s = Some m)
          then handleSelectModule m now s else s
      | SelectSuggested t response suggestions \<Rightarrow>
          if dashboard then selectSuggestedTopic J response suggestions t s else s
      | StartQuiz outcome \<Rightarrow>
          if dashboard \<and> currentModule s \<noteq> None then startQuiz (\<lambda>p t. outcome) s else s
      | EndSession now \<Rightarrow>
          if view s = TUTORING \<and> profile s \<noteq> None \<and> currentModule s \<noteq> None
          then handleEndSession now s else s
      | SubmitFeedback feedback \<Rightarrow>
          if view s = FEEDBACK then submitFeedback J feedback s else s
      | QuizComplete score n \<Rightarrow>
          if view s = QUIZ \<and> activeQuiz s \<noteq> None then handleQuizComplete J score n s else s
      | QuizBack \<Rightarrow>
          if view s = QUIZ \<and> activeQuiz s \<noteq> None then s\<lparr>view := DASHBOARD\<rparr> else s
      | Home \<Rightarrow> if profile s \<noteq> None then s\<lparr>view := DASHBOARD\<rparr> else s
      | SignOut \<Rightarrow>
          if profile s \<noteq> None \<and> view s \<noteq> WELCOME \<and> view s \<noteq> ONBOARDING
          then initialState Map.empty else s)"

inductive reachable :: "Json \<Rightarrow> AppState \<Rightarrow> bool" for J :: Json where
  mount: "restoreSession J suggestions (initialState store) = Inr s \<Longrightarrow> reachable J s"
| event: "reachable J s \<Longrightarrow> reachable J (app_event J ev s)"

definition app_inv :: "AppState \<Rightarrow> bool" where
  \<comment> \<open>profile and path come and go together; past the onboarding there is a profile;
      the quiz view has a current module and a quiz; the current module is one of the
      path's, by its id\<close>
  "app_inv s =
     ((profile s = None \<longleftrightarrow> learningPath s = None)
      \<and> (view s = WELCOME \<or> view s = ONBOARDING \<or> profile s \<noteq> None)
      \<and> (view s \<noteq> QUIZ \<or> currentModule s \<noteq> None \<and> activeQuiz s \<noteq> None)
      \<and> (case currentModule s of
            None \<Rightarrow> True
          | Some cm \<Rightarrow>
              (case learningPath s of
                 None \<Rightarrow> False
               | Some path \<Rightarrow> mod_id cm \<in> set (map mod_id (modules path)))))"

section \<open>Invariants of the two views\<close>

definition quiz_inv :: "Quiz \<Rightarrow> QuizViewState \<Rightarrow> bool" where
  \<comment> \<open>one answer per question passed; all of them once the result is shown\<close>
  "quiz_inv quiz q =
     (if showResult q then length (answers q) = length (questions quiz)
      else length (answers q) = currentIdx q \<and> currentIdx q < length (questions quiz))"

definition zeroPerformance :: PerformanceData where
  "zeroPerformance =
     \<lparr>quizScores = [], timeSpentMinutes = 0, lastFeedback = None,
      completedTopics = [], averageAccuracy = 0\<rparr>"

definition onboarding_inv :: "OnboardingState \<Rightarrow> bool" where
  \<comment> \<open>the step is 1, 2 or 3; the fields a step's button checks are filled in on the
      later steps; nothing has touched the performance record\<close>
  "onboarding_inv st =
     (d_performance (data st) = zeroPerformance
      \<and> (step st = 1 \<or> step st = 2 \<or> step st = 3)
      \<and> (step st = 1 \<or> truthy (d_name (data st)) \<and> truthy (d_classInfo (data st))
                         \<and> truthy (d_subject (data st)))
      \<and> (step st = 1 \<or> step st = 2 \<or> truthy (d_topic (data st))))"

definition accuracy :: "AppState \<Rightarrow> int option" where
  \<comment> \<open>\<open>profile?.performance.averageAccuracy\<close>\<close>
  "accuracy s = map_option (\<lambda>p. averageAccuracy (performance p)) (profile s)"

section \<open>Example values\<close>

text \<open>
  Concrete values at which the theorems below are instantiated.  \<open>exJson\<close> is a
  stand-in for the platform's JSON functions, enough to evaluate closed instances:
  it writes a profile as its name and topic, a path as its rationale, and reads back
  exactly the two texts it wrote for \<open>exProfile\<close> and \<open>exPath\<close>.
\<close>

definition exProfile :: UserProfile where
  "exProfile =
     \<lparr>name = ''Ada'', classInfo = ''Grade 11'', subject = ''Physics'', level = BEGINNER,
      goal = CONCEPT_UNDERSTANDING, style = MIXED, timePerDay = 1, topic = ''Optics'',
      language = ''English'',
      performance = \<lparr>quizScores = [], timeSpentMinutes = 0, lastFeedback = None,
                      completedTopics = [], averageAccuracy = 0\<rparr>\<rparr>"

definition exModule :: "string \<Rightarrow> string \<Rightarrow> Module" where
  "exModule i t =
     \<lparr>mod_id = i, title = t, description = ''about '' @ t, status = Current, topics = [t],
      videoUrl = None, sources = None\<rparr>"

definition exPath :: LearningPath where
  "exPath =
     \<lparr>modules = [exModule ''a'' ''Reflection'', exModule ''b'' ''Refraction''],
      estimatedWeeks = 2, personalizedReasoning = ''Two steps into optics.''\<rparr>"

definition exJson :: Json where
  "exJson =
     \<lparr>stringify_profile = (\<lambda>p. ''profile '' @ name p @ '' '' @ topic p),
      stringify_path = (\<lambda>l. ''path '' @ personalizedReasoning l),
      parse_profile = (\<lambda>t. if t = ''profile Ada Optics'' then Inr exProfile else Inl SyntaxError),
      parse_path = (\<lambda>t. if t = ''path Two steps into optics.'' then Inr exPath else Inl SyntaxError)\<rparr>"

definition exState :: AppState where
  \<comment> \<open>on the dashboard, with profile, path and first module loaded\<close>
  "exState =
     \<lparr>view = DASHBOARD, profile = Some exProfile, learningPath = Some exPath,
      suggestedTitles = [], currentModule = Some (exModule ''a'' ''Reflection''),
      isLoading = False, loadingMsg = ''Initializing...'', activeQuiz = None,
      sessionStartTime = 0, localStorage = Map.empty\<rparr>"

definition exQuestion :: "int \<Rightarrow> QuizQuestion" where
  "exQuestion c =
     \<lparr>question = ''Which one?'', options = [''A'', ''B'', ''C'', ''D''], correctAnswer = c,
      explanation = ''''\<rparr>"

definition exQuiz :: Quiz where
  "exQuiz = \<lparr>quiz_title = ''Reflection'', questions = map exQuestion [0, 1, 2, 3, 0]\<rparr>"

definition exOnboardingState :: AppState where
  \<comment> \<open>a fresh session on the onboarding view, nothing stored\<close>
  "exOnboardingState = (initialState Map.empty)\<lparr>view := ONBOARDING\<rparr>"

definition exEmptyResponse :: PathResponse where
  \<comment> \<open>a reply that fits the response schema and has no modules\<close>
  "exEmptyResponse = \<lparr>parsed = exPath\<lparr>modules := []\<rparr>, groundingChunks = []\<rparr>"

section \<open>Path synthesis\<close>

text \<open>
  C6.  When anything inside the \<open>try\<close> block of \<open>generateLearningPath\<close> fails, the
  function returns the fallback learning path: exactly one module, whose status is
  \<open>current\<close>, titled after the profile's topic, and a rationale that begins with the
  word ``Fallback''.  The result does not depend on the failure and depends on the
  profile through its topic only.
\<close>

theorem fallback_path_on_gateway_failure:
  "generateLearningPath p (Inl e) = fallbackPath p
   \<and> length (modules (generateLearningPath p (Inl e))) = 1
   \<and> map status (modules (generateLearningPath p (Inl e))) = [Current]
   \<and> map title (modules (generateLearningPath p (Inl e))) = [''Foundations of '' @ topic p]
   \<and> take 8 (personalizedReasoning (generateLearningPath p (Inl e))) = ''Fallback''
   \<and> generateLearningPath p (Inl e) = generateLearningPath (p'\<lparr>topic := topic p\<rparr>) (Inl e')"
  by (simp add: generateLearningPath_def fallbackPath_def)

section \<open>Properties of the rounding\<close>

lemma rne_le: "y \<le> of_int k \<Longrightarrow> rne y \<le> k"
proof -
  assume a: "y \<le> of_int k"
  have "rne y \<le> \<lceil>y\<rceil>"
    unfolding rne_def Let_def by (simp add: floor_le_ceiling) linarith
  also from a have "\<lceil>y\<rceil> \<le> k" by (simp add: ceiling_le_iff)
  finally show ?thesis .
qed

lemma rne_ge: "of_int k \<le> y \<Longrightarrow> k \<le> rne y"
proof -
  assume a: "of_int k \<le> y"
  then have "k \<le> \<lfloor>y\<rfloor>" by (simp add: le_floor_iff)
  also have "\<lfloor>y\<rfloor> \<le> rne y"
    unfolding rne_def Let_def by simp
  finally show ?thesis .
qed

lemma bitlen_ge_1: "0 < p \<Longrightarrow> 1 \<le> bitlen p"
  using bitlen_eq_zero_iff [of p] bitlen_nonneg [of p] by linarith

lemma ilog2_le:
  assumes "0 < x"
  shows "2 powi (ilog2 x) \<le> x"
proof -
  obtain p q where pq: "quotient_of x = (p, q)" by (cases "quotient_of x")
  then have q: "0 < q" and x: "x = of_int p / of_int q"
    by (simp_all add: quotient_of_denom_pos quotient_of_div)
  from assms x q have p: "0 < p"
    by (simp add: zero_less_divide_iff)
  let ?e0 = "bitlen p - bitlen q"
  show ?thesis
  proof (cases "2 powi ?e0 \<le> x")
    case True
    with pq show ?thesis by (simp add: ilog2_def)
  next
    case False
    with pq have e: "ilog2 x = ?e0 - 1" by (simp add: ilog2_def)
    from bitlen_bounds [OF p] have "2 ^ nat (bitlen p - 1) \<le> p" by simp
    then have "(of_int (2 ^ nat (bitlen p - 1)) :: rat) \<le> of_int p"
      by (simp only: of_int_le_iff)
    then have lo: "(2::rat) ^ nat (bitlen p - 1) \<le> of_int p" by simp
    from bitlen_bounds [OF q] have "q \<le> 2 ^ nat (bitlen q)" by simp
    then have "(of_int q :: rat) \<le> of_int (2 ^ nat (bitlen q))"
      by (simp only: of_int_le_iff)
    then have hi: "of_int q \<le> (2::rat) ^ nat (bitlen q)" by simp
    have bp: "1 \<le> bitlen p" using p by (rule bitlen_ge_1)
    have bq: "0 \<le> bitlen q" by (rule bitlen_nonneg)
    have "(2::rat) powi (?e0 - 1) = 2 powi ((bitlen p - 1) - bitlen q)"
      by (simp add: algebra_simps)
    also have "\<dots> = 2 powi (bitlen p - 1) / 2 powi (bitlen q)"
      by (rule power_int_diff) simp
    also have "\<dots> = 2 ^ nat (bitlen p - 1) / 2 ^ nat (bitlen q)"
      using bp bq by (simp add: power_int_nonneg_exp)
    also have "\<dots> \<le> of_int p / of_int q"
      using lo hi q p by (intro frac_le) simp_all
    finally show ?thesis using e x by simp
  qed
qed

lemma ulp_pos: "0 < ulp x"
  by (simp add: ulp_def)

lemma fl_pos: "0 < x \<Longrightarrow> fl x = of_int (rne (x / ulp x)) * ulp x"
  by (simp add: fl_def)

text \<open>The rounding never crosses a point of the grid it rounds to.\<close>

lemma fl_le_grid:
  assumes "0 < x" and "x \<le> of_int k * ulp x"
  shows "fl x \<le> of_int k * ulp x"
proof -
  from assms(2) ulp_pos [of x] have "x / ulp x \<le> of_int k"
    by (simp add: pos_divide_le_eq)
  then have "rne (x / ulp x) \<le> k" by (rule rne_le)
  then have "(of_int (rne (x / ulp x)) :: rat) \<le> of_int k" by simp
  with ulp_pos [of x] show ?thesis
    by (simp add: fl_pos [OF assms(1)])
qed

lemma fl_ge_grid:
  assumes "0 < x" and "of_int k * ulp x \<le> x"
  shows "of_int k * ulp x \<le> fl x"
proof -
  from assms(2) ulp_pos [of x] have "of_int k \<le> x / ulp x"
    by (simp add: pos_le_divide_eq)
  then have "k \<le> rne (x / ulp x)" by (rule rne_ge)
  then have "(of_int k :: rat) \<le> of_int (rne (x / ulp x))" by simp
  with ulp_pos [of x] show ?thesis
    by (simp add: fl_pos [OF assms(1)])
qed

text \<open>Below \<open>2^E\<close> the grid is at least as fine as \<open>2^(E - 53)\<close>.\<close>

lemma ulp_divides:
  assumes "0 < x" and "x < 2 powi E" and "- 1021 \<le> E" and "E - 53 \<le> n"
  shows "\<exists>j::int. (2::rat) powi n = of_int j * ulp x"
proof -
  define m where "m = max (ilog2 x) (- 1022) - 52"
  from ilog2_le [OF assms(1)] assms(2) have "(2::rat) powi (ilog2 x) < 2 powi E" by simp
  have "ilog2 x < E"
  proof (rule ccontr)
    assume "\<not> ilog2 x < E"
    then have "E \<le> ilog2 x" by simp
    then have "(2::rat) powi E \<le> 2 powi (ilog2 x)" by (rule power_int_increasing) simp
    with \<open>(2::rat) powi (ilog2 x) < 2 powi E\<close> show False by simp
  qed
  with assms(3,4) have mn: "m \<le> n" by (simp add: m_def)
  have u: "ulp x = 2 powi m" using assms(1) by (simp add: ulp_def m_def)
  have "(2::rat) powi n = 2 powi ((n - m) + m)" by simp
  also have "\<dots> = 2 powi (n - m) * 2 powi m"
    by (rule power_int_add) simp
  also have "(2::rat) powi (n - m) = 2 ^ nat (n - m)"
    using mn by (simp add: power_int_nonneg_exp)
  also have "\<dots> = of_int (2 ^ nat (n - m))" by simp
  finally have "(2::rat) powi n = of_int (2 ^ nat (n - m)) * ulp x"
    by (simp only: u)
  then show ?thesis by (rule exI)
qed

lemma fl_le_dyadic:
  assumes "0 < x" and "x < 2 powi E" and "- 1021 \<le> E" and "E - 53 \<le> n"
    and "x \<le> of_int c * 2 powi n"
  shows "fl x \<le> of_int c * 2 powi n"
proof -
  from ulp_divides [OF assms(1-4)] obtain j :: int where j: "(2::rat) powi n = of_int j * ulp x"
    by blast
  then have eq: "of_int c * 2 powi n = of_int (c * j) * ulp x" by simp
  with assms(5) have "x \<le> of_int (c * j) * ulp x" by simp
  then have "fl x \<le> of_int (c * j) * ulp x" by (rule fl_le_grid [OF assms(1)])
  then show ?thesis by (simp only: eq)
qed

lemma fl_ge_dyadic:
  assumes "0 < x" and "x < 2 powi E" and "- 1021 \<le> E" and "E - 53 \<le> n"
    and "of_int c * 2 powi n \<le> x"
  shows "of_int c * 2 powi n \<le> fl x"
proof -
  from ulp_divides [OF assms(1-4)] obtain j :: int where j: "(2::rat) powi n = of_int j * ulp x"
    by blast
  then have eq: "of_int c * 2 powi n = of_int (c * j) * ulp x" by simp
  with assms(5) have "of_int (c * j) * ulp x \<le> x" by simp
  then have "of_int (c * j) * ulp x \<le> fl x" by (rule fl_ge_grid [OF assms(1)])
  then show ?thesis by (simp only: eq)
qed

text \<open>
  For a whole number of milliseconds below \<open>2^52\<close>, dividing by 60000 in double
  arithmetic and rounding gives the exactly rounded quotient (half a minute rounds up).
\<close>

lemma round_div_60000:
  assumes "0 \<le> d" and "d < 2 ^ 52"
  shows "Math_round (js_div (of_int d) 60000) = (d + 30000) div 60000"
proof (cases "d = 0")
  case True
  have "\<lfloor>(1::rat) / 2\<rfloor> = 0" by (rule floor_unique) simp_all
  with True show ?thesis by (simp add: Math_round_def js_div_def fl_def)
next
  case False
  with assms have dpos: "0 < d" by simp
  define K where "K = (d + 30000) div 60000"
  define x :: rat where "x = of_int d / 60000"
  have K1: "60000 * K \<le> d + 30000" and K2: "d + 30000 < 60000 * K + 60000"
    unfolding K_def by simp_all
  from K1 have "(of_int (60000 * K) :: rat) \<le> of_int (d + 30000)"
    by (simp only: of_int_le_iff)
  then have r1: "60000 * (of_int K :: rat) \<le> of_int d + 30000" by simp
  from K2 have "d \<le> 60000 * K + 29999" by simp
  then have "(of_int d :: rat) \<le> of_int (60000 * K + 29999)"
    by (simp only: of_int_le_iff)
  then have r2: "(of_int d :: rat) \<le> 60000 * of_int K + 29999" by simp
  from assms(2) have "(of_int d :: rat) < of_int (2 ^ 52)"
    by (simp only: of_int_less_iff)
  then have r3: "(of_int d :: rat) < 2 ^ 52" by simp
  have xpos: "0 < x" using dpos by (simp add: x_def)
  have xlt: "x < 2 powi 37" using r3 by (simp add: x_def)
  have p1: "(2::rat) powi (- 1) = 1 / 2" by (simp add: power_int_minus_divide)
  have p16: "(2::rat) powi (- 16) = 1 / 65536" by (simp add: power_int_minus_divide)
  have b1: "of_int (2 * K - 1) * 2 powi (- 1) \<le> x"
    using r1 by (simp add: p1 x_def)
  have "of_int (2 * K - 1) * 2 powi (- 1) \<le> fl x"
    by (rule fl_ge_dyadic [OF xpos xlt _ _ b1]) simp_all
  then have lo: "of_int K - 1 / 2 \<le> fl x" by (simp add: p1 algebra_simps)
  have b2: "x \<le> of_int (65536 * K + 32767) * 2 powi (- 16)"
    using r2 by (simp add: p16 x_def)
  have "fl x \<le> of_int (65536 * K + 32767) * 2 powi (- 16)"
    by (rule fl_le_dyadic [OF xpos xlt _ _ b2]) simp_all
  then have hi: "fl x \<le> of_int K + 32767 / 65536" by (simp add: p16 algebra_simps)
  have "\<lfloor>fl x + 1 / 2\<rfloor> = K"
    using lo hi by (intro floor_unique) simp_all
  then show ?thesis by (simp add: Math_round_def js_div_def x_def K_def)
qed

text \<open>The other half of the specification of \<open>ilog2\<close>.\<close>

lemma ilog2_gt:
  assumes "0 < x"
  shows "x < 2 powi (ilog2 x + 1)"
proof -
  obtain p q where pq: "quotient_of x = (p, q)" by (cases "quotient_of x")
  then have q: "0 < q" and x: "x = of_int p / of_int q"
    by (simp_all add: quotient_of_denom_pos quotient_of_div)
  from assms x q have p: "0 < p"
    by (simp add: zero_less_divide_iff)
  let ?e0 = "bitlen p - bitlen q"
  show ?thesis
  proof (cases "2 powi ?e0 \<le> x")
    case True
    with pq have e: "ilog2 x = ?e0" by (simp add: ilog2_def)
    from bitlen_bounds [OF p] have "p \<le> 2 ^ nat (bitlen p)" by simp
    then have "(of_int p :: rat) \<le> of_int (2 ^ nat (bitlen p))"
      by (simp only: of_int_le_iff)
    then have hi: "of_int p \<le> (2::rat) ^ nat (bitlen p)" by simp
    from bitlen_bounds [OF p] have "p < 2 ^ nat (bitlen p)" by simp
    then have "(of_int p :: rat) < of_int (2 ^ nat (bitlen p))"
      by (simp only: of_int_less_iff)
    then have hi': "of_int p < (2::rat) ^ nat (bitlen p)" by simp
    from bitlen_bounds [OF q] have "2 ^ nat (bitlen q - 1) \<le> q" by simp
    then have "(of_int (2 ^ nat (bitlen q - 1)) :: rat) \<le> of_int q"
      by (simp only: of_int_le_iff)
    then have lo: "(2::rat) ^ nat (bitlen q - 1) \<le> of_int q" by simp
    have bq: "1 \<le> bitlen q" using q by (rule bitlen_ge_1)
    have bp: "0 \<le> bitlen p" by (rule bitlen_nonneg)
    have "of_int p / of_int q < (2::rat) ^ nat (bitlen p) / 2 ^ nat (bitlen q - 1)"
      using hi' lo q p by (intro frac_less) simp_all
    also have "\<dots> = 2 powi (bitlen p) / 2 powi (bitlen q - 1)"
      using bp bq by (simp add: power_int_nonneg_exp)
    also have "\<dots> = 2 powi (bitlen p - (bitlen q - 1))"
      by (rule power_int_diff [symmetric]) simp
    also have "bitlen p - (bitlen q - 1) = ?e0 + 1" by simp
    finally show ?thesis using e x by simp
  next
    case False
    with pq have e: "ilog2 x = ?e0 - 1" by (simp add: ilog2_def)
    with False show ?thesis by simp
  qed
qed

lemma rne_error: "\<bar>of_int (rne y) - y\<bar> \<le> 1 / 2"
proof -
  have "of_int \<lfloor>y\<rfloor> \<le> y" and "y < of_int \<lfloor>y\<rfloor> + 1" by linarith+
  then show ?thesis
    unfolding rne_def Let_def by (auto simp: abs_le_iff)
qed

text \<open>The rounding error is at most half the spacing, and the significand of a normal
  number has 53 bits.\<close>

lemma fl_error: "\<bar>fl x - x\<bar> \<le> ulp x / 2"
proof (cases "x = 0")
  case True
  then show ?thesis using ulp_pos [of 0] by (simp add: fl_def)
next
  case False
  have u: "0 < ulp x" by (rule ulp_pos)
  have "fl x - x = sgn x * ((of_int (rne (\<bar>x\<bar> / ulp x)) - \<bar>x\<bar> / ulp x) * ulp x)"
    using False u by (simp add: fl_def algebra_simps sgn_if)
  then have "\<bar>fl x - x\<bar> = \<bar>of_int (rne (\<bar>x\<bar> / ulp x)) - \<bar>x\<bar> / ulp x\<bar> * ulp x"
    using False u by (simp add: abs_mult abs_sgn_eq)
  also have "\<dots> \<le> 1 / 2 * ulp x"
    using rne_error [of "\<bar>x\<bar> / ulp x"] u by (intro mult_right_mono) simp_all
  finally show ?thesis by simp
qed

lemma fl_significand:
  assumes "0 < x" and "- 1022 \<le> ilog2 x"
  shows "2 ^ 52 \<le> rne (x / ulp x) \<and> rne (x / ulp x) \<le> 2 ^ 53"
proof -
  have u: "ulp x = 2 powi (ilog2 x - 52)" using assms by (simp add: ulp_def max_def)
  have up: "0 < ulp x" by (rule ulp_pos)
  have "ilog2 x = 52 + (ilog2 x - 52)" by simp
  then have "(2::rat) powi (ilog2 x) = 2 powi (52 + (ilog2 x - 52))" by (rule arg_cong)
  also have "\<dots> = 2 powi 52 * 2 powi (ilog2 x - 52)" by (rule power_int_add) simp
  finally have a: "(2::rat) powi (ilog2 x) = of_int (2 ^ 52) * ulp x" by (simp add: u)
  have "ilog2 x + 1 = 53 + (ilog2 x - 52)" by simp
  then have "(2::rat) powi (ilog2 x + 1) = 2 powi (53 + (ilog2 x - 52))" by (rule arg_cong)
  also have "\<dots> = 2 powi 53 * 2 powi (ilog2 x - 52)" by (rule power_int_add) simp
  finally have b: "(2::rat) powi (ilog2 x + 1) = of_int (2 ^ 53) * ulp x" by (simp add: u)
  from ilog2_le [OF assms(1)] a have "of_int (2 ^ 52) * ulp x \<le> x" by simp
  with up have "of_int (2 ^ 52) \<le> x / ulp x" by (simp add: pos_le_divide_eq)
  then have lo: "2 ^ 52 \<le> rne (x / ulp x)" by (rule rne_ge)
  from ilog2_gt [OF assms(1)] b have "x \<le> of_int (2 ^ 53) * ulp x" by simp
  with up have "x / ulp x \<le> of_int (2 ^ 53)" by (simp add: pos_divide_le_eq)
  then have hi: "rne (x / ulp x) \<le> 2 ^ 53" by (rule rne_le)
  from lo hi show ?thesis ..
qed

lemma fl_4_5: "fl (4 / 5) = 3602879701896397 / 4503599627370496"
  by code_simp

lemma fl_1: "fl 1 = 1"
  by code_simp

text \<open>
  The comparison \<open>score / total >= 0.8\<close> on doubles decides
  \<open>4 * total \<le> 5 * score\<close> exactly, for every quiz of fewer than \<open>2^50\<close>
  questions.
\<close>

lemma ge_threshold:
  fixes s t :: nat
  assumes "0 < t" and "t < 2 ^ 50" and "s \<le> t"
  shows "fl (4 / 5) \<le> js_div (of_nat s) (of_nat t) \<longleftrightarrow> 4 * t \<le> 5 * s"
proof -
  define x :: rat where "x = of_nat s / of_nat t"
  have tpos: "(0::rat) < of_nat t" using assms(1) by simp
  have tlt: "(of_nat t :: rat) < 2 ^ 50"
    using assms(2) by (metis of_nat_less_iff of_nat_numeral of_nat_power)
  have xle1: "x \<le> 1" using assms(1,3) by (simp add: x_def)
  have p52: "(2::rat) powi (- 52) = 1 / 4503599627370496" by (simp add: power_int_minus_divide)
  have p53: "(2::rat) powi (- 53) = 1 / 9007199254740992" by (simp add: power_int_minus_divide)
  show ?thesis
  proof (cases "4 * t \<le> 5 * s")
    case True
    have "fl (4 / 5) \<le> fl x"
    proof (cases "4 * t = 5 * s")
      case True
      then have "(of_nat (4 * t) :: rat) = of_nat (5 * s)" by (simp only:)
      then have "x = 4 / 5" using tpos by (simp add: x_def field_simps)
      then have "fl x = fl (4 / 5)" by (rule arg_cong)
      then show ?thesis by (simp only: order_refl)
    next
      case False
      with True have "4 * t + 1 \<le> 5 * s" by simp
      then have "(of_nat (4 * t + 1) :: rat) \<le> of_nat (5 * s)" by (simp only: of_nat_le_iff)
      then have r: "4 * (of_nat t :: rat) + 1 \<le> 5 * of_nat s" by simp
      show ?thesis
      proof (cases "x = 1")
        case True
        then show ?thesis by (simp add: fl_1 fl_4_5)
      next
        case False
        with xle1 have xlt: "x < 2 powi 0" by simp
        have xpos: "0 < x" using r tpos by (simp add: x_def zero_less_divide_iff)
        have "x - (4 / 5 + 1 / (5 * of_nat t)) = (5 * of_nat s - 4 * of_nat t - 1) / (5 * of_nat t)"
          using tpos by (simp add: x_def field_simps)
        moreover have "0 \<le> (5 * (of_nat s :: rat) - 4 * of_nat t - 1) / (5 * of_nat t)"
          using r tpos by (intro divide_nonneg_pos) simp_all
        ultimately have "4 / 5 + 1 / (5 * of_nat t) \<le> x" by linarith
        moreover have "1 / (5 * 2 ^ 50) \<le> 1 / (5 * (of_nat t :: rat))"
          using tpos tlt by (intro divide_left_mono) simp_all
        ultimately have "3602879701896397 / 4503599627370496 \<le> x" by simp
        then have b: "of_int 3602879701896397 * 2 powi (- 52) \<le> x" by (simp add: p52)
        have "of_int 3602879701896397 * 2 powi (- 52) \<le> fl x"
          by (rule fl_ge_dyadic [OF xpos xlt _ _ b]) simp_all
        then show ?thesis by (simp add: fl_4_5 p52)
      qed
    qed
    with True show ?thesis by (simp add: js_div_def x_def)
  next
    case False
    then have "5 * s + 1 \<le> 4 * t" by simp
    then have "(of_nat (5 * s + 1) :: rat) \<le> of_nat (4 * t)" by (simp only: of_nat_le_iff)
    then have r: "5 * (of_nat s :: rat) + 1 \<le> 4 * of_nat t" by simp
    have "fl x < fl (4 / 5)"
    proof (cases "s = 0")
      case True
      then show ?thesis by (simp add: x_def fl_4_5) (simp add: fl_def)
    next
      case False
      then have xpos: "0 < x" using tpos by (simp add: x_def)
      have "x < 1" using r tpos by (simp add: x_def field_simps)
      then have xlt: "x < 2 powi 0" by simp
      have "(4 / 5 - 1 / (5 * of_nat t)) - x = (4 * of_nat t - 5 * of_nat s - 1) / (5 * of_nat t)"
        using tpos by (simp add: x_def field_simps)
      moreover have "0 \<le> (4 * (of_nat t :: rat) - 5 * of_nat s - 1) / (5 * of_nat t)"
        using r tpos by (intro divide_nonneg_pos) simp_all
      ultimately have "x \<le> 4 / 5 - 1 / (5 * of_nat t)" by linarith
      moreover have "1 / (5 * 2 ^ 50) \<le> 1 / (5 * (of_nat t :: rat))"
        using tpos tlt by (intro divide_left_mono) simp_all
      ultimately have "x \<le> 7205759403792793 / 9007199254740992" by simp
      then have b: "x \<le> of_int 7205759403792793 * 2 powi (- 53)" by (simp add: p53)
      have "fl x \<le> of_int 7205759403792793 * 2 powi (- 53)"
        by (rule fl_le_dyadic [OF xpos xlt _ _ b]) simp_all
      then show ?thesis by (simp add: fl_4_5 p53)
    qed
    with False show ?thesis by (simp add: js_div_def x_def)
  qed
qed

section \<open>Reachable states\<close>

lemma first_module_in_path:
  "first_module path = Some m \<Longrightarrow> m \<in> set (modules path)"
  by (cases "modules path") (simp_all add: first_module_def)

lemma app_inv_mount:
  assumes "restoreSession J suggestions (initialState store) = Inr s"
  shows "app_inv s"
proof (cases "truthy (store ''edupal_profile'') \<and> truthy (store ''edupal_path'')")
  case False
  with assms have "s = initialState store"
    by (auto simp: restoreSession_def Let_def initialState_def)
  then show ?thesis by (simp add: app_inv_def initialState_def)
next
  case True
  with assms obtain p path where
    s: "s = (initialState store)\<lparr>profile := Some p, learningPath := Some path,
            currentModule := first_module path, view := DASHBOARD,
            suggestedTitles := getRelatedCourseSuggestions p suggestions\<rparr>"
    by (auto simp: restoreSession_def Let_def initialState_def split: sum.splits)
  show ?thesis
    using first_module_in_path [of path]
    by (auto simp: s app_inv_def split: option.splits)
qed

lemma app_inv_path_synthesis:
  assumes "s' = s\<lparr>profile := Some p, learningPath := Some path,
                   currentModule := first_module path, view := DASHBOARD\<rparr>"
  shows "app_inv s'"
  using first_module_in_path [of path]
  by (auto simp: assms app_inv_def split: option.splits)

lemma app_inv_completeOnboarding:
  "app_inv (completeOnboarding J response suggestions userData s)"
  using first_module_in_path [of "generateLearningPath userData response"]
  by (auto simp: completeOnboarding_def handleOnboardingComplete_def synthesizePath_def
      app_inv_def Let_def split: option.splits)

lemma app_inv_selectSuggestedTopic:
  "app_inv s \<Longrightarrow> app_inv (selectSuggestedTopic J response suggestions t s)"
proof (cases "profile s")
  case None
  assume "app_inv s"
  with None show ?thesis
    by (simp add: selectSuggestedTopic_def handleSelectSuggested_def)
next
  case (Some p)
  show ?thesis
    using first_module_in_path [of "generateLearningPath (p\<lparr>topic := t\<rparr>) response"]
    by (auto simp: Some selectSuggestedTopic_def handleSelectSuggested_def synthesizePath_def
        app_inv_def Let_def split: option.splits)
qed

lemma complete_keeps_ids:
  "map mod_id (map (\<lambda>m. if mod_id m = i then m\<lparr>status := Completed\<rparr> else m) ms) = map mod_id ms"
  by (induction ms) simp_all

lemma app_inv_handleQuizComplete:
  assumes "app_inv s"
  shows "app_inv (handleQuizComplete J score n s)"
proof (cases "learningPath s = None \<or> currentModule s = None \<or> profile s = None")
  case True
  then have "handleQuizComplete J score n s = s"
    by (auto simp: handleQuizComplete_def split: option.splits)
  with assms show ?thesis by simp
next
  case False
  then obtain path cm p where
    l: "learningPath s = Some path" and c: "currentModule s = Some cm" and p: "profile s = Some p"
    by auto
  define newPath where "newPath =
     (if passed_of score n then
        path\<lparr>modules :=
          map (\<lambda>m. if mod_id m = mod_id cm then m\<lparr>status := Completed\<rparr> else m) (modules path)\<rparr>
      else path)"
  have ids: "map mod_id (modules newPath) = map mod_id (modules path)"
    by (simp add: newPath_def complete_keeps_ids del: map_map)
  from assms l c have "mod_id cm \<in> set (map mod_id (modules path))"
    by (simp add: app_inv_def)
  then have cur: "mod_id cm \<in> set (map mod_id (modules newPath))"
    by (simp only: ids)
  from assms have v: "view s = WELCOME \<or> view s = ONBOARDING \<or> profile s \<noteq> None"
    and q: "view s \<noteq> QUIZ \<or> currentModule s \<noteq> None \<and> activeQuiz s \<noteq> None"
    by (auto simp: app_inv_def)
  obtain p' st where h: "handleQuizComplete J score n s
      = s\<lparr>learningPath := Some newPath, profile := Some p', localStorage := st\<rparr>"
    using l c p by (simp add: handleQuizComplete_def Let_def newPath_def)
  show ?thesis
    using cur v q c unfolding h app_inv_def by simp
qed

lemma app_inv_event:
  assumes "app_inv s"
  shows "app_inv (app_event J ev s)"
proof (cases ev)
  case Start
  with assms show ?thesis by (auto simp: app_event_def app_inv_def split: option.splits)
next
  case (OnboardingComplete userData response suggestions)
  with assms app_inv_completeOnboarding show ?thesis by (simp add: app_event_def)
next
  case (SelectModule m now)
  with assms show ?thesis
    by (auto simp: app_event_def handleSelectModule_def app_inv_def split: option.splits)
next
  case (SelectSuggested t response suggestions)
  with assms app_inv_selectSuggestedTopic show ?thesis by (simp add: app_event_def)
next
  case (StartQuiz outcome)
  with assms show ?thesis
    by (auto simp: app_event_def startQuiz_def app_inv_def Let_def split: option.splits sum.splits)
next
  case (EndSession now)
  with assms show ?thesis
    by (auto simp: app_event_def handleEndSession_def app_inv_def Let_def split: option.splits)
next
  case (SubmitFeedback feedback)
  with assms show ?thesis
    by (auto simp: app_event_def submitFeedback_def app_inv_def Let_def split: option.splits)
next
  case (QuizComplete score n)
  with assms app_inv_handleQuizComplete show ?thesis by (simp add: app_event_def)
next
  case QuizBack
  with assms show ?thesis by (auto simp: app_event_def app_inv_def split: option.splits)
next
  case Home
  with assms show ?thesis by (auto simp: app_event_def app_inv_def split: option.splits)
next
  case SignOut
  with assms show ?thesis
    by (auto simp: app_event_def app_inv_def initialState_def split: option.splits)
qed

lemma reachable_inv: "reachable J s \<Longrightarrow> app_inv s"
  by (induction rule: reachable.induct) (simp_all add: app_inv_mount app_inv_event)

text \<open>
  In every reachable state that shows the quiz view, the guard of
  \<open>handleQuizComplete\<close> passes, and the current module's id is the id of a module
  of the path.
\<close>

lemma quiz_view_guard:
  assumes "reachable J s" and "view s = QUIZ"
  shows "\<exists>path cm p. learningPath s = Some path \<and> currentModule s = Some cm \<and> profile s = Some p
          \<and> mod_id cm \<in> set (map mod_id (modules path))"
  using reachable_inv [OF assms(1)] assms(2)
  by (auto simp: app_inv_def split: option.splits)

text \<open>
  Only the completion of a quiz changes the average accuracy of a profile that stays:
  every other event keeps it, installs a profile (onboarding) or drops the session
  (sign-out).
\<close>

lemma accuracy_only_by_quiz:
  "accuracy (app_event J ev s) = accuracy s
   \<or> (\<exists>score n. ev = QuizComplete score n)
   \<or> (\<exists>userData response suggestions. ev = OnboardingComplete userData response suggestions)
   \<or> ev = SignOut"
  by (cases ev)
     (auto simp: app_event_def accuracy_def completeOnboarding_def selectSuggestedTopic_def
        handleOnboardingComplete_def handleSelectSuggested_def handleSelectModule_def
        handleEndSession_def submitFeedback_def startQuiz_def synthesizePath_def Let_def
        split: option.splits sum.splits)

section \<open>Quiz scoring\<close>

lemma count_correct_Cons:
  "count_correct (a # as) (q # qs) = (if int a = correctAnswer q then 1 else 0) + count_correct as qs"
  by (simp add: count_correct_def)

lemma count_correct_Nil [simp]: "count_correct [] qs = 0"
  by (simp add: count_correct_def)

lemma count_correct_le: "count_correct as qs \<le> length qs"
proof -
  have "count_correct as qs \<le> length (zip as qs)"
    unfolding count_correct_def by (rule length_filter_le)
  then show ?thesis by simp
qed

lemma count_correct_all:
  "map int sels = map correctAnswer qs \<Longrightarrow> count_correct sels qs = length qs"
proof (induction sels arbitrary: qs)
  case Nil
  then show ?case by simp
next
  case (Cons a sels)
  then obtain q qs' where "qs = q # qs'" by (cases qs) auto
  with Cons show ?case by (simp add: count_correct_Cons)
qed

text \<open>The indexed \<open>reduce\<close> counts the matching positions and does not throw while
  the answers do not outnumber the questions.\<close>

lemma reduce_score_count:
  "i + length as \<le> length qs \<Longrightarrow>
     reduce_score qs acc i as = Inr (acc + count_correct as (drop i qs))"
proof (induction as arbitrary: acc i)
  case Nil
  then show ?case by simp
next
  case (Cons a as)
  then have i: "i < length qs" and rest: "Suc i + length as \<le> length qs" by simp_all
  from i have d: "drop i qs = qs ! i # drop (Suc i) qs"
    by (simp add: Cons_nth_drop_Suc)
  show ?case
    using i Cons.IH [OF rest] by (simp add: d count_correct_Cons)
qed

lemma handleNext_inv:
  assumes "quiz_inv quiz q" "\<not> showResult q"
  shows "\<exists>q' c. handleNext quiz q = Inr (q', c) \<and> quiz_inv quiz q'
      \<and> (case c of None \<Rightarrow> \<not> showResult q'
          | Some x \<Rightarrow> showResult q' \<and> x = (count_correct (answers q') (questions quiz), length (questions quiz)))"
proof (cases "selected q")
  case None
  with assms show ?thesis by (simp add: handleNext_def)
next
  case (Some sel)
  from assms have len: "length (answers q) = currentIdx q" and lt: "currentIdx q < length (questions quiz)"
    by (simp_all add: quiz_inv_def)
  show ?thesis
  proof (cases "int (currentIdx q) < int (length (questions quiz)) - 1")
    case True
    with Some assms len show ?thesis
      by (simp add: handleNext_def quiz_inv_def Let_def)
  next
    case False
    with lt have last: "Suc (currentIdx q) = length (questions quiz)" by simp
    then have "0 + length (answers q @ [sel]) \<le> length (questions quiz)" using len by simp
    from reduce_score_count [OF this]
    have "reduce_score (questions quiz) 0 0 (answers q @ [sel]) = Inr (count_correct (answers q @ [sel]) (questions quiz))"
      by simp
    with Some False last len show ?thesis
      by (simp add: handleNext_def quiz_inv_def Let_def)
  qed
qed

lemma quiz_event_inv:
  assumes "quiz_inv quiz q"
  shows "\<exists>q' c. quiz_event quiz ev q = Inr (q', c) \<and> quiz_inv quiz q'
      \<and> (if showResult q then q' = q \<and> c = None
          else case c of None \<Rightarrow> \<not> showResult q'
          | Some x \<Rightarrow> showResult q' \<and> x = (count_correct (answers q') (questions quiz), length (questions quiz)))"
proof (cases "showResult q")
  case True
  with assms show ?thesis by (simp add: quiz_event_def)
next
  case False
  show ?thesis
  proof (cases ev)
    case (Select i)
    with False assms show ?thesis by (simp add: quiz_event_def quiz_inv_def)
  next
    case Next
    with False handleNext_inv [OF assms False] show ?thesis by (simp add: quiz_event_def)
  qed
qed

lemma quiz_run_inv:
  "quiz_inv quiz q \<Longrightarrow>
   \<exists>q' cs. quiz_run quiz evs q = Inr (q', cs) \<and> quiz_inv quiz q'
      \<and> (if showResult q then q' = q \<and> cs = []
          else if showResult q'
               then cs = [(count_correct (answers q') (questions quiz), length (questions quiz))]
               else cs = [])"
proof (induction evs arbitrary: q)
  case Nil
  then show ?case by simp
next
  case (Cons ev evs)
  from quiz_event_inv [OF Cons.prems, of ev] obtain q1 c where
    ev: "quiz_event quiz ev q = Inr (q1, c)" and inv1: "quiz_inv quiz q1"
    and c: "if showResult q then q1 = q \<and> c = None
          else case c of None \<Rightarrow> \<not> showResult q1
          | Some x \<Rightarrow> showResult q1 \<and> x = (count_correct (answers q1) (questions quiz), length (questions quiz))"
    by blast
  from Cons.IH [OF inv1] obtain q2 cs where
    run: "quiz_run quiz evs q1 = Inr (q2, cs)" and inv2: "quiz_inv quiz q2"
    and cs: "if showResult q1 then q2 = q1 \<and> cs = []
          else if showResult q2
               then cs = [(count_correct (answers q2) (questions quiz), length (questions quiz))]
               else cs = []"
    by blast
  show ?case
  proof (cases "showResult q")
    case True
    with ev run inv2 c cs show ?thesis by simp
  next
    case False
    show ?thesis
    proof (cases c)
      case None
      with False ev run inv2 c cs show ?thesis by simp
    next
      case (Some x)
      with False ev run inv2 c cs show ?thesis by simp
    qed
  qed
qed

text \<open>Answering every question in turn ends on the result screen with one call of
  \<open>onComplete\<close>.\<close>

lemma quiz_run_answer_all:
  "sels \<noteq> [] \<Longrightarrow> length as + length sels = length (questions quiz) \<Longrightarrow>
   quiz_run quiz (answer_all sels)
      \<lparr>currentIdx = length as, answers = as, showResult = False, selected = x\<rparr>
   = Inr (\<lparr>currentIdx = length (questions quiz) - 1, answers = as @ sels,
           showResult = True, selected = None\<rparr>,
          [(count_correct (as @ sels) (questions quiz), length (questions quiz))])"
proof (induction sels arbitrary: as x)
  case Nil
  then show ?case by simp
next
  case (Cons a sels)
  show ?case
  proof (cases "sels = []")
    case True
    with Cons.prems have last: "Suc (length as) = length (questions quiz)" by simp
    then have "0 + length (as @ [a]) \<le> length (questions quiz)" by simp
    from reduce_score_count [OF this]
    have "reduce_score (questions quiz) 0 0 (as @ [a]) = Inr (count_correct (as @ [a]) (questions quiz))"
      by simp
    with True last show ?thesis
      by (simp add: answer_all_def quiz_event_def handleNext_def Let_def)
  next
    case False
    with Cons.prems have lt: "int (length as) < int (length (questions quiz)) - 1"
      by (cases sels) simp_all
    from Cons.prems have "length (as @ [a]) + length sels = length (questions quiz)" by simp
    from Cons.IH [OF False this, of None]
    have "quiz_run quiz (answer_all sels)
      \<lparr>currentIdx = Suc (length as), answers = as @ [a], showResult = False, selected = None\<rparr>
      = Inr (\<lparr>currentIdx = length (questions quiz) - 1, answers = as @ a # sels,
           showResult = True, selected = None\<rparr>,
          [(count_correct (as @ a # sels) (questions quiz), length (questions quiz))])"
      by simp
    with lt show ?thesis
      by (simp add: answer_all_def quiz_event_def handleNext_def Let_def)
  qed
qed

lemma passed_5_5: "passed_of 5 5"
  by code_simp

lemma passed_of_iff:
  "0 < n \<Longrightarrow> n < 2 ^ 50 \<Longrightarrow> score \<le> n \<Longrightarrow> passed_of score n \<longleftrightarrow> 4 * n \<le> 5 * score"
  by (simp add: passed_of_def ge_threshold)

text \<open>
  C8.  For a quiz with at least one question, whatever the user does in the quiz view,
  the view never throws; it calls the completion handler at most once, exactly when it
  switches to the result screen, with \<open>total\<close> the number of questions and \<open>score\<close>
  the number of positions where the recorded answer is the question's
  \<open>correctAnswer\<close>; by then every question has one recorded answer, and the score is
  at most the total.
\<close>

theorem quiz_completion_score:
  assumes "questions quiz \<noteq> []"
  shows "\<exists>q' calls. quiz_run quiz evs quizInit = Inr (q', calls)
      \<and> (if showResult q'
         then calls = [(count_correct (answers q') (questions quiz), length (questions quiz))]
              \<and> length (answers q') = length (questions quiz)
         else calls = [])
      \<and> count_correct (answers q') (questions quiz) \<le> length (questions quiz)"
proof -
  from assms have "quiz_inv quiz quizInit" by (simp add: quiz_inv_def quizInit_def)
  from quiz_run_inv [OF this, of evs] obtain q' cs where
    "quiz_run quiz evs quizInit = Inr (q', cs)" "quiz_inv quiz q'"
    "if showResult quizInit then q' = quizInit \<and> cs = []
          else if showResult q'
               then cs = [(count_correct (answers q') (questions quiz), length (questions quiz))]
               else cs = []"
    by blast
  then show ?thesis
    using count_correct_le [of "answers q'" "questions quiz"]
    by (auto simp: quizInit_def quiz_inv_def split: if_splits)
qed

theorem quiz_completion_score_witness:
  "questions exQuiz \<noteq> []
   \<and> (\<exists>q' calls. quiz_run exQuiz [Select 0, Next, Select 2, Select 1, Next, Next, Select 0, Next,
                                  Select 3, Next, Select 0, Next, Select 1, Next] quizInit
                   = Inr (q', calls)
      \<and> (if showResult q'
         then calls = [(count_correct (answers q') (questions exQuiz), length (questions exQuiz))]
              \<and> length (answers q') = length (questions exQuiz)
         else calls = [])
      \<and> count_correct (answers q') (questions exQuiz) \<le> length (questions exQuiz))
   \<and> quiz_run exQuiz [Select 0, Next, Select 2, Select 1, Next, Next, Select 0, Next,
                     Select 3, Next, Select 0, Next, Select 1, Next] quizInit
     = Inr (\<lparr>currentIdx = 4, answers = [0, 1, 0, 3, 0], showResult = True, selected = None\<rparr>,
            [(4, 5)])"
proof -
  have ne: "questions exQuiz \<noteq> []" by (simp add: exQuiz_def)
  have run: "quiz_run exQuiz [Select 0, Next, Select 2, Select 1, Next, Next, Select 0, Next,
                     Select 3, Next, Select 0, Next, Select 1, Next] quizInit
     = Inr (\<lparr>currentIdx = 4, answers = [0, 1, 0, 3, 0], showResult = True, selected = None\<rparr>,
            [(4, 5)])"
    by (simp add: exQuiz_def exQuestion_def quizInit_def quiz_event_def handleNext_def Let_def)
  show ?thesis
    using ne run quiz_completion_score [OF ne] by blast
qed

text \<open>
  C1.  A five-question quiz answered with each question's \<open>correctAnswer\<close>, in a
  session whose profile, learning path and current module are loaded (as they are
  whenever the quiz view is shown, by \<open>quiz_view_guard\<close>): the view calls
  the completion handler with score 5 of 5, the quiz is passed, every module of the
  path with the current module's id gets status \<open>completed\<close> (the other modules,
  the order and the ids are unchanged), the score is appended to the quiz scores, and
  exactly one entry, the current module's title, is appended to the completed topics.
\<close>

theorem perfect_quiz_completes_module:
  fixes J :: Json
  assumes "length (questions quiz) = 5"
    and "map int sels = map correctAnswer (questions quiz)"
    and "learningPath s = Some path" and "currentModule s = Some cm" and "profile s = Some p"
  defines "newPath \<equiv> path\<lparr>modules :=
              map (\<lambda>m. if mod_id m = mod_id cm then m\<lparr>status := Completed\<rparr> else m) (modules path)\<rparr>"
    and "newProfile \<equiv> p\<lparr>performance := (performance p)
              \<lparr>quizScores := quizScores (performance p) @ [5],
               averageAccuracy := avgAccuracy_of (quizScores (performance p) @ [5]),
               completedTopics := completedTopics (performance p) @ [title cm]\<rparr>\<rparr>"
  shows "quiz_run quiz (answer_all sels) quizInit
           = Inr (\<lparr>currentIdx = 4, answers = sels, showResult = True, selected = None\<rparr>, [(5, 5)])
     \<and> passed_of 5 5
     \<and> completeQuiz J quiz sels s
           = Inr (s\<lparr>learningPath := Some newPath, profile := Some newProfile,
                    localStorage := (localStorage s)
                      (''edupal_profile'' \<mapsto> stringify_profile J newProfile,
                       ''edupal_path'' \<mapsto> stringify_path J newPath)\<rparr>)
     \<and> map mod_id (modules newPath) = map mod_id (modules path)
     \<and> (\<forall>m \<in> set (modules newPath). mod_id m = mod_id cm \<longrightarrow> status m = Completed)
     \<and> length (completedTopics (performance newProfile))
           = length (completedTopics (performance p)) + 1"
proof -
  from assms(2) have "length sels = length (questions quiz)"
    by (metis length_map)
  with assms(1) have len: "length sels = 5" and ne: "sels \<noteq> []" by auto
  have cc: "count_correct sels (questions quiz) = 5"
    using count_correct_all [OF assms(2)] assms(1) by simp
  have "quiz_run quiz (answer_all sels)
          \<lparr>currentIdx = length ([]::nat list), answers = [], showResult = False, selected = None\<rparr>
        = Inr (\<lparr>currentIdx = length (questions quiz) - 1, answers = [] @ sels,
                showResult = True, selected = None\<rparr>,
               [(count_correct ([] @ sels) (questions quiz), length (questions quiz))])"
    by (rule quiz_run_answer_all [OF ne]) (simp add: len assms(1))
  then have run: "quiz_run quiz (answer_all sels) quizInit
           = Inr (\<lparr>currentIdx = 4, answers = sels, showResult = True, selected = None\<rparr>, [(5, 5)])"
    by (simp add: quizInit_def cc assms(1))
  have hqc: "handleQuizComplete J 5 5 s
           = s\<lparr>learningPath := Some newPath, profile := Some newProfile,
                    localStorage := (localStorage s)
                      (''edupal_profile'' \<mapsto> stringify_profile J newProfile,
                       ''edupal_path'' \<mapsto> stringify_path J newPath)\<rparr>"
    using assms(3-5) passed_5_5
    by (simp add: handleQuizComplete_def saveState_def Let_def newPath_def newProfile_def)
  have comp: "completeQuiz J quiz sels s
           = Inr (s\<lparr>learningPath := Some newPath, profile := Some newProfile,
                    localStorage := (localStorage s)
                      (''edupal_profile'' \<mapsto> stringify_profile J newProfile,
                       ''edupal_path'' \<mapsto> stringify_path J newPath)\<rparr>)"
    by (simp add: completeQuiz_def run hqc)
  have ids: "map mod_id (modules newPath) = map mod_id (modules path)"
    by (simp add: newPath_def comp_def)
  have st: "\<forall>m \<in> set (modules newPath). mod_id m = mod_id cm \<longrightarrow> status m = Completed"
    by (auto simp: newPath_def)
  have ct: "length (completedTopics (performance newProfile))
           = length (completedTopics (performance p)) + 1"
    by (simp add: newProfile_def)
  from run passed_5_5 comp ids st ct show ?thesis by blast
qed

lemma avgAccuracy_of_5: "avgAccuracy_of [5] = 100"
  by code_simp

theorem perfect_quiz_completes_module_witness:
  "length (questions exQuiz) = 5
   \<and> map int [0, 1, 2, 3, 0] = map correctAnswer (questions exQuiz)
   \<and> learningPath exState = Some exPath
   \<and> currentModule exState = Some (exModule ''a'' ''Reflection'')
   \<and> profile exState = Some exProfile
   \<and> quiz_run exQuiz (answer_all [0, 1, 2, 3, 0]) quizInit
       = Inr (\<lparr>currentIdx = 4, answers = [0, 1, 2, 3, 0], showResult = True, selected = None\<rparr>,
              [(5, 5)])
   \<and> completeQuiz exJson exQuiz [0, 1, 2, 3, 0] exState
       = Inr (exState
           \<lparr>learningPath := Some (exPath\<lparr>modules :=
                [(exModule ''a'' ''Reflection'')\<lparr>status := Completed\<rparr>,
                 exModule ''b'' ''Refraction'']\<rparr>),
            profile := Some (exProfile\<lparr>performance :=
                \<lparr>quizScores = [5], timeSpentMinutes = 0, lastFeedback = None,
                 completedTopics = [''Reflection''], averageAccuracy = 100\<rparr>\<rparr>),
            localStorage := [''edupal_profile'' \<mapsto> ''profile Ada Optics'',
                             ''edupal_path'' \<mapsto> ''path Two steps into optics.'']\<rparr>)"
proof -
  have h1: "length (questions exQuiz) = 5" by (simp add: exQuiz_def)
  have h2: "map int [0, 1, 2, 3, 0] = map correctAnswer (questions exQuiz)"
    by (simp add: exQuiz_def exQuestion_def)
  have h3: "learningPath exState = Some exPath" by (simp add: exState_def)
  have h4: "currentModule exState = Some (exModule ''a'' ''Reflection'')" by (simp add: exState_def)
  have h5: "profile exState = Some exProfile" by (simp add: exState_def)
  have h6: "localStorage exState = Map.empty" by (simp add: exState_def)
  show ?thesis
    using h1 h2 h3 h4 h5 perfect_quiz_completes_module [OF h1 h2 h3 h4 h5, of exJson]
    by (simp add: h6 avgAccuracy_of_5 exPath_def exModule_def exProfile_def exJson_def)
qed

section \<open>Onboarding\<close>

lemma onboarding_event_inv:
  assumes "onboarding_inv st" and "onboarding_event ev st = (st', c)"
  shows "onboarding_inv st' \<and> (c = None \<or> c = Some (data st) \<and> step st = 3)"
  using assms
  by (cases ev) (auto simp: onboarding_event_def onboarding_inv_def Let_def split: if_splits)

lemma onboarding_run_inv:
  "onboarding_inv st \<Longrightarrow> onboarding_run evs st = (st', ds) \<Longrightarrow> d \<in> set ds \<Longrightarrow>
     d_performance d = zeroPerformance \<and> truthy (d_name d) \<and> truthy (d_classInfo d)
     \<and> truthy (d_subject d) \<and> truthy (d_topic d)"
proof (induction evs arbitrary: st st' ds)
  case Nil
  then show ?case by simp
next
  case (Cons ev evs)
  obtain st1 c where ev: "onboarding_event ev st = (st1, c)" by (cases "onboarding_event ev st")
  obtain st2 cs where run: "onboarding_run evs st1 = (st2, cs)" by (cases "onboarding_run evs st1")
  from onboarding_event_inv [OF Cons.prems(1) ev]
  have inv1: "onboarding_inv st1" and c: "c = None \<or> c = Some (data st) \<and> step st = 3"
    by simp_all
  from Cons.prems(2) ev run have ds: "ds = (case c of None \<Rightarrow> [] | Some x \<Rightarrow> [x]) @ cs"
    by simp
  show ?case
  proof (cases "d \<in> set cs")
    case True
    from Cons.IH [OF inv1 run True] show ?thesis .
  next
    case False
    with ds Cons.prems(3) c have "d = data st" and "step st = 3"
      by (auto split: option.splits)
    with Cons.prems(1) show ?thesis by (simp add: onboarding_inv_def)
  qed
qed

text \<open>
  C10.  Whatever the user does in the onboarding view, every argument it passes to
  \<open>onComplete\<close> is a complete profile whose performance record is the initial one:
  no quiz scores, 0 minutes, no completed topics, accuracy 0 and no last feedback.
  (Its name, class, subject and topic are non-empty, since the buttons that lead to
  the last step are disabled otherwise.)
\<close>

theorem onboarding_profile_zero_performance:
  assumes "onboarding_run evs onboardingInit = (st, ds)" and "d \<in> set ds"
  shows "\<exists>p. asUserProfile d = Some p
      \<and> performance p = \<lparr>quizScores = [], timeSpentMinutes = 0, lastFeedback = None,
                          completedTopics = [], averageAccuracy = 0\<rparr>
      \<and> name p \<noteq> '''' \<and> classInfo p \<noteq> '''' \<and> subject p \<noteq> '''' \<and> topic p \<noteq> ''''"
proof -
  have "onboarding_inv onboardingInit"
    by (simp add: onboarding_inv_def onboardingInit_def zeroPerformance_def)
  from onboarding_run_inv [OF this assms]
  show ?thesis
    by (auto simp: asUserProfile_def truthy_def zeroPerformance_def split: option.splits)
qed

theorem onboarding_profile_zero_performance_witness:
  "onboarding_run [SetName ''Ada'', SetClassInfo ''Grade 11'', SetSubject ''Physics'', NextStep,
                   SetLevel ADVANCED, SetTopic ''Optics'', NextStep, PrevStep, SetLevel BEGINNER,
                   NextStep, SetGoal EXAM_PREP, SetGoal CONCEPT_UNDERSTANDING, Launch]
                  onboardingInit
     = (\<lparr>step = 3, data = data onboardingInit
            \<lparr>d_name := Some ''Ada'', d_classInfo := Some ''Grade 11'',
             d_subject := Some ''Physics'', d_topic := Some ''Optics''\<rparr>\<rparr>,
        [data onboardingInit
            \<lparr>d_name := Some ''Ada'', d_classInfo := Some ''Grade 11'',
             d_subject := Some ''Physics'', d_topic := Some ''Optics''\<rparr>])
   \<and> asUserProfile (data onboardingInit
            \<lparr>d_name := Some ''Ada'', d_classInfo := Some ''Grade 11'',
             d_subject := Some ''Physics'', d_topic := Some ''Optics''\<rparr>) = Some exProfile
   \<and> (\<exists>p. asUserProfile (data onboardingInit
            \<lparr>d_name := Some ''Ada'', d_classInfo := Some ''Grade 11'',
             d_subject := Some ''Physics'', d_topic := Some ''Optics''\<rparr>) = Some p
      \<and> performance p = \<lparr>quizScores = [], timeSpentMinutes = 0, lastFeedback = None,
                          completedTopics = [], averageAccuracy = 0\<rparr>
      \<and> name p \<noteq> '''' \<and> classInfo p \<noteq> '''' \<and> subject p \<noteq> '''' \<and> topic p \<noteq> '''')"
proof -
  have run: "onboarding_run [SetName ''Ada'', SetClassInfo ''Grade 11'', SetSubject ''Physics'', NextStep,
                   SetLevel ADVANCED, SetTopic ''Optics'', NextStep, PrevStep, SetLevel BEGINNER,
                   NextStep, SetGoal EXAM_PREP, SetGoal CONCEPT_UNDERSTANDING, Launch]
                  onboardingInit
     = (\<lparr>step = 3, data = data onboardingInit
            \<lparr>d_name := Some ''Ada'', d_classInfo := Some ''Grade 11'',
             d_subject := Some ''Physics'', d_topic := Some ''Optics''\<rparr>\<rparr>,
        [data onboardingInit
            \<lparr>d_name := Some ''Ada'', d_classInfo := Some ''Grade 11'',
             d_subject := Some ''Physics'', d_topic := Some ''Optics''\<rparr>])"
    by (simp add: onboarding_event_def onboardingInit_def truthy_def Let_def)
  have p: "asUserProfile (data onboardingInit
            \<lparr>d_name := Some ''Ada'', d_classInfo := Some ''Grade 11'',
             d_subject := Some ''Physics'', d_topic := Some ''Optics''\<rparr>) = Some exProfile"
    by (simp add: asUserProfile_def onboardingInit_def exProfile_def)
  show ?thesis
    using run p onboarding_profile_zero_performance [OF run] by simp
qed

section \<open>Feedback\<close>

text \<open>
  C9.  \<open>submitFeedback\<close> without a profile or without a learning path only switches
  the view to the dashboard: profile, path, storage and everything else stay as they
  were.  With both present it records the rating in the profile and writes profile
  and path to storage under both keys.  In either case the storage is left untouched
  or both keys are written.
\<close>

theorem submitFeedback_frame:
  "(profile s = None \<or> learningPath s = None \<longrightarrow>
      submitFeedback J feedback s = s\<lparr>view := DASHBOARD\<rparr>)
   \<and> (profile s = Some p \<and> learningPath s = Some path \<longrightarrow>
        submitFeedback J feedback s =
          s\<lparr>profile := Some (p\<lparr>performance := (performance p)\<lparr>lastFeedback := Some feedback\<rparr>\<rparr>),
            localStorage := (localStorage s)
              (''edupal_profile'' \<mapsto>
                 stringify_profile J (p\<lparr>performance := (performance p)\<lparr>lastFeedback := Some feedback\<rparr>\<rparr>),
               ''edupal_path'' \<mapsto> stringify_path J path),
            view := DASHBOARD\<rparr>)
   \<and> (localStorage (submitFeedback J feedback s) = localStorage s
        \<or> (\<exists>p' path'. localStorage (submitFeedback J feedback s) =
              (localStorage s)(''edupal_profile'' \<mapsto> stringify_profile J p',
                               ''edupal_path'' \<mapsto> stringify_path J path')))"
  by (cases "profile s"; cases "learningPath s")
     (auto simp: submitFeedback_def saveState_def Let_def)

theorem submitFeedback_frame_witness:
  "submitFeedback exJson Hard (exState\<lparr>learningPath := None\<rparr>)
     = exState\<lparr>learningPath := None, view := DASHBOARD\<rparr>
   \<and> submitFeedback exJson Hard (exState\<lparr>view := FEEDBACK\<rparr>)
     = exState\<lparr>profile := Some (exProfile\<lparr>performance :=
                    (performance exProfile)\<lparr>lastFeedback := Some Hard\<rparr>\<rparr>),
               localStorage := [''edupal_profile'' \<mapsto> ''profile Ada Optics'',
                                ''edupal_path'' \<mapsto> ''path Two steps into optics.''],
               view := DASHBOARD\<rparr>"
proof -
  have a: "submitFeedback exJson Hard (exState\<lparr>learningPath := None\<rparr>)
     = exState\<lparr>learningPath := None, view := DASHBOARD\<rparr>"
    using submitFeedback_frame [where s = "exState\<lparr>learningPath := None\<rparr>" and J = exJson
        and feedback = Hard]
    by simp
  have b: "submitFeedback exJson Hard (exState\<lparr>view := FEEDBACK\<rparr>)
     = exState\<lparr>profile := Some (exProfile\<lparr>performance :=
                    (performance exProfile)\<lparr>lastFeedback := Some Hard\<rparr>\<rparr>),
               localStorage := [''edupal_profile'' \<mapsto> ''profile Ada Optics'',
                                ''edupal_path'' \<mapsto> ''path Two steps into optics.''],
               view := DASHBOARD\<rparr>"
    using submitFeedback_frame [where s = "exState\<lparr>view := FEEDBACK\<rparr>" and p = exProfile
        and path = exPath and J = exJson and feedback = Hard]
    by (simp add: exState_def exJson_def exProfile_def exPath_def)
  from a b show ?thesis by simp
qed

section \<open>Session restore\<close>

lemma restoreSession_absent:
  "\<not> (truthy (localStorage s ''edupal_profile'') \<and> truthy (localStorage s ''edupal_path''))
     \<Longrightarrow> restoreSession J suggestions s = Inr s"
  by (auto simp: restoreSession_def Let_def)

lemma restoreSession_throws:
  assumes "truthy (localStorage s ''edupal_profile'')" and "truthy (localStorage s ''edupal_path'')"
    and "parse_profile J (the (localStorage s ''edupal_profile'')) = Inl e"
  shows "restoreSession J suggestions s = Inl e"
  using assms by (simp add: restoreSession_def Let_def)

text \<open>
  C5.  The mount effect calls \<open>JSON.parse\<close> on both stored texts without a
  \<open>try\<close>: with a profile text that is not JSON the effect ends in the
  \<open>SyntaxError\<close> instead of leaving the initial Welcome state, and likewise with a
  path text that is not JSON.  With only one of the two records stored, the effect
  changes nothing and the session stays on the Welcome view.
\<close>

theorem restoreSession_unparseable_throws:
  "restoreSession exJson (Inr [])
      (initialState [''edupal_profile'' \<mapsto> ''{'',
                     ''edupal_path'' \<mapsto> ''path Two steps into optics.''])
     = Inl SyntaxError
   \<and> restoreSession exJson (Inr [])
      (initialState [''edupal_profile'' \<mapsto> ''profile Ada Optics'', ''edupal_path'' \<mapsto> ''{''])
     = Inl SyntaxError
   \<and> restoreSession exJson (Inr [])
      (initialState [''edupal_profile'' \<mapsto> ''profile Ada Optics''])
     = Inr (initialState [''edupal_profile'' \<mapsto> ''profile Ada Optics''])
   \<and> view (initialState [''edupal_profile'' \<mapsto> ''profile Ada Optics'']) = WELCOME"
  by (simp add: restoreSession_def initialState_def truthy_def exJson_def Let_def)

section \<open>Path synthesis in the handlers\<close>

lemma generateLearningPath_nonempty:
  "modules (generateLearningPath p response) \<noteq> []
     \<longleftrightarrow> (case response of Inl e \<Rightarrow> True | Inr r \<Rightarrow> modules (parsed r) \<noteq> [])"
  by (cases response) (simp_all add: generateLearningPath_def fallbackPath_def Let_def)

text \<open>
  C2, counterexample.  The specification promises a non-empty module sequence on the
  dashboard, or an unchanged session when the gateway fails.  Neither holds in general.  A reply of the gateway that fits the response schema
  with an empty module array takes a valid draft to the dashboard with an empty module
  sequence and no current module, and storage is written.  And were the awaited call
  to reject, the profile would already have been set to the draft before the
  \<open>try\<close>.
\<close>

theorem completeOnboarding_counterexample:
  "name exProfile \<noteq> '''' \<and> classInfo exProfile \<noteq> '''' \<and> subject exProfile \<noteq> ''''
   \<and> topic exProfile \<noteq> ''''
   \<and> view (completeOnboarding exJson (Inr exEmptyResponse) (Inr []) exProfile exOnboardingState)
       = DASHBOARD
   \<and> learningPath (completeOnboarding exJson (Inr exEmptyResponse) (Inr []) exProfile exOnboardingState)
       = Some (exPath\<lparr>modules := []\<rparr>)
   \<and> currentModule (completeOnboarding exJson (Inr exEmptyResponse) (Inr []) exProfile exOnboardingState)
       = None
   \<and> localStorage (completeOnboarding exJson (Inr exEmptyResponse) (Inr []) exProfile exOnboardingState)
         ''edupal_path'' = Some ''path Two steps into optics.''
   \<and> localStorage exOnboardingState ''edupal_path'' = None
   \<and> profile (handleOnboardingComplete exJson (\<lambda>p. Inl RequestFailed) (Inr []) exProfile
                exOnboardingState) = Some exProfile
   \<and> profile exOnboardingState = None"
  by (simp add: completeOnboarding_def handleOnboardingComplete_def synthesizePath_def
      generateLearningPath_def exEmptyResponse_def exOnboardingState_def initialState_def
      first_module_def saveState_def exJson_def exPath_def exProfile_def Let_def)

text \<open>
  C2, as the code has it.  For every draft, \<open>completeOnboarding\<close> reaches the dashboard with
  the profile equal to the draft, the learning path returned by path synthesis, its
  first module (if any) as current module, and both records persisted; the module
  sequence is non-empty exactly when the gateway call failed (the one-module fallback
  path) or its reply had at least one module.  If the awaited call itself rejects, the
  view, learning path, current module and storage are unchanged and loading is
  cleared.
\<close>

theorem completeOnboarding_reaches_dashboard:
  "view (completeOnboarding J response suggestions draft s) = DASHBOARD
   \<and> profile (completeOnboarding J response suggestions draft s) = Some draft
   \<and> learningPath (completeOnboarding J response suggestions draft s)
       = Some (generateLearningPath draft response)
   \<and> currentModule (completeOnboarding J response suggestions draft s)
       = first_module (generateLearningPath draft response)
   \<and> localStorage (completeOnboarding J response suggestions draft s)
       = (localStorage s)
           (''edupal_profile'' \<mapsto> stringify_profile J draft,
            ''edupal_path'' \<mapsto> stringify_path J (generateLearningPath draft response))
   \<and> isLoading (completeOnboarding J response suggestions draft s) = False
   \<and> (modules (generateLearningPath draft response) \<noteq> []
        \<longleftrightarrow> (case response of Inl e \<Rightarrow> True | Inr r \<Rightarrow> modules (parsed r) \<noteq> []))
   \<and> view (handleOnboardingComplete J (\<lambda>p. Inl e) suggestions draft s) = view s
   \<and> learningPath (handleOnboardingComplete J (\<lambda>p. Inl e) suggestions draft s) = learningPath s
   \<and> currentModule (handleOnboardingComplete J (\<lambda>p. Inl e) suggestions draft s) = currentModule s
   \<and> localStorage (handleOnboardingComplete J (\<lambda>p. Inl e) suggestions draft s) = localStorage s
   \<and> isLoading (handleOnboardingComplete J (\<lambda>p. Inl e) suggestions draft s) = False"
  using generateLearningPath_nonempty [of draft response]
  by (simp add: completeOnboarding_def handleOnboardingComplete_def synthesizePath_def
      saveState_def Let_def)

theorem completeOnboarding_reaches_dashboard_witness:
  "view (completeOnboarding exJson (Inl RequestFailed) (Inr []) exProfile exOnboardingState)
     = DASHBOARD
   \<and> profile (completeOnboarding exJson (Inl RequestFailed) (Inr []) exProfile exOnboardingState)
     = Some exProfile
   \<and> learningPath (completeOnboarding exJson (Inl RequestFailed) (Inr []) exProfile exOnboardingState)
     = Some (fallbackPath exProfile)
   \<and> localStorage (completeOnboarding exJson (Inl RequestFailed) (Inr []) exProfile exOnboardingState)
     = [''edupal_profile'' \<mapsto> ''profile Ada Optics'',
        ''edupal_path'' \<mapsto>
          ''path Fallback sequence activated due to search constraints. Focusing on core mastery.'']
   \<and> modules (generateLearningPath exProfile (Inl RequestFailed)) \<noteq> []
   \<and> view (handleOnboardingComplete exJson (\<lambda>p. Inl RequestFailed) (Inr []) exProfile
             exOnboardingState) = ONBOARDING"
proof -
  have g: "generateLearningPath exProfile (Inl RequestFailed) = fallbackPath exProfile"
    by (simp add: generateLearningPath_def)
  have st: "localStorage exOnboardingState = Map.empty" and v: "view exOnboardingState = ONBOARDING"
    by (simp_all add: exOnboardingState_def initialState_def)
  have n: "name exProfile = ''Ada''" and t: "topic exProfile = ''Optics''"
    by (simp_all add: exProfile_def)
  show ?thesis
    using completeOnboarding_reaches_dashboard [where J = exJson and response = "Inl RequestFailed"
        and suggestions = "Inr []" and draft = exProfile and s = exOnboardingState
        and e = RequestFailed]
    by (simp add: g st v n t exJson_def fallbackPath_def)
qed

text \<open>
  C4, counterexample.  The specification promises that nothing is mutated when path
  synthesis fails.  But when the gateway call fails, \<open>generateLearningPath\<close>
  answers with the fallback path, so the handler replaces the profile's topic, the
  learning path and the current module and writes storage.  And were the awaited call
  to reject, the profile's topic would already have been replaced before the
  \<open>try\<close>.
\<close>

theorem selectSuggestedTopic_counterexample:
  "view exState = DASHBOARD \<and> profile exState = Some exProfile \<and> topic exProfile = ''Optics''
   \<and> learningPath exState = Some exPath
   \<and> profile (selectSuggestedTopic exJson (Inl RequestFailed) (Inr []) ''Lenses'' exState)
       = Some (exProfile\<lparr>topic := ''Lenses''\<rparr>)
   \<and> learningPath (selectSuggestedTopic exJson (Inl RequestFailed) (Inr []) ''Lenses'' exState)
       = Some (fallbackPath (exProfile\<lparr>topic := ''Lenses''\<rparr>))
   \<and> fallbackPath (exProfile\<lparr>topic := ''Lenses''\<rparr>) \<noteq> exPath
   \<and> map_option title
         (currentModule (selectSuggestedTopic exJson (Inl RequestFailed) (Inr []) ''Lenses'' exState))
       = Some ''Foundations of Lenses''
   \<and> localStorage (selectSuggestedTopic exJson (Inl RequestFailed) (Inr []) ''Lenses'' exState)
         ''edupal_profile'' = Some ''profile Ada Lenses''
   \<and> localStorage exState ''edupal_profile'' = None
   \<and> profile (handleSelectSuggested exJson (\<lambda>p. Inl RequestFailed) (Inr []) ''Lenses'' exState)
       = Some (exProfile\<lparr>topic := ''Lenses''\<rparr>)"
  by (simp add: selectSuggestedTopic_def handleSelectSuggested_def synthesizePath_def
      generateLearningPath_def fallbackPath_def exState_def first_module_def saveState_def
      exJson_def exPath_def exProfile_def Let_def)

text \<open>
  C4, as the code has it.  In the dashboard view with a profile present: when the gateway call
  inside path synthesis fails, \<open>selectSuggestedTopic\<close> proceeds as on success with
  the fallback path --- the view stays the dashboard, the profile's topic becomes the
  selected title (nothing else of the profile changes), the learning path becomes the
  one-module fallback path for that topic, the current module its module, and both
  records are persisted.  Only if the awaited call itself rejects does the handler
  skip the update: then the view stays the dashboard and the learning path, current
  module and storage are unchanged.
\<close>

theorem selectSuggestedTopic_gateway_failure:
  assumes "view s = DASHBOARD" and "profile s = Some p"
  shows "view (selectSuggestedTopic J (Inl e) suggestions newTopic s) = DASHBOARD
   \<and> profile (selectSuggestedTopic J (Inl e) suggestions newTopic s) = Some (p\<lparr>topic := newTopic\<rparr>)
   \<and> learningPath (selectSuggestedTopic J (Inl e) suggestions newTopic s)
       = Some (fallbackPath (p\<lparr>topic := newTopic\<rparr>))
   \<and> currentModule (selectSuggestedTopic J (Inl e) suggestions newTopic s)
       = Some (hd (modules (fallbackPath (p\<lparr>topic := newTopic\<rparr>))))
   \<and> length (modules (fallbackPath (p\<lparr>topic := newTopic\<rparr>))) = 1
   \<and> localStorage (selectSuggestedTopic J (Inl e) suggestions newTopic s)
       = (localStorage s)
           (''edupal_profile'' \<mapsto> stringify_profile J (p\<lparr>topic := newTopic\<rparr>),
            ''edupal_path'' \<mapsto> stringify_path J (fallbackPath (p\<lparr>topic := newTopic\<rparr>)))
   \<and> view (handleSelectSuggested J (\<lambda>p. Inl e') suggestions newTopic s) = DASHBOARD
   \<and> learningPath (handleSelectSuggested J (\<lambda>p. Inl e') suggestions newTopic s) = learningPath s
   \<and> currentModule (handleSelectSuggested J (\<lambda>p. Inl e') suggestions newTopic s) = currentModule s
   \<and> localStorage (handleSelectSuggested J (\<lambda>p. Inl e') suggestions newTopic s) = localStorage s"
  using assms
  by (simp add: selectSuggestedTopic_def handleSelectSuggested_def synthesizePath_def
      generateLearningPath_def fallbackPath_def first_module_def saveState_def Let_def)

theorem selectSuggestedTopic_gateway_failure_witness:
  "view exState = DASHBOARD \<and> profile exState = Some exProfile
   \<and> view (selectSuggestedTopic exJson (Inl RequestFailed) (Inr []) ''Lenses'' exState) = DASHBOARD
   \<and> profile (selectSuggestedTopic exJson (Inl RequestFailed) (Inr []) ''Lenses'' exState)
       = Some (exProfile\<lparr>topic := ''Lenses''\<rparr>)
   \<and> learningPath (selectSuggestedTopic exJson (Inl RequestFailed) (Inr []) ''Lenses'' exState)
       = Some (fallbackPath (exProfile\<lparr>topic := ''Lenses''\<rparr>))
   \<and> localStorage (selectSuggestedTopic exJson (Inl RequestFailed) (Inr []) ''Lenses'' exState)
       = [''edupal_profile'' \<mapsto> ''profile Ada Lenses'',
          ''edupal_path'' \<mapsto>
            ''path Fallback sequence activated due to search constraints. Focusing on core mastery.'']
   \<and> learningPath (handleSelectSuggested exJson (\<lambda>p. Inl RequestFailed) (Inr []) ''Lenses'' exState)
       = Some exPath
   \<and> localStorage (handleSelectSuggested exJson (\<lambda>p. Inl RequestFailed) (Inr []) ''Lenses'' exState)
       = Map.empty"
proof -
  have h1: "view exState = DASHBOARD" by (simp add: exState_def)
  have h2: "profile exState = Some exProfile" by (simp add: exState_def)
  have h3: "learningPath exState = Some exPath" by (simp add: exState_def)
  have h4: "localStorage exState = Map.empty" by (simp add: exState_def)
  show ?thesis
    using h1 h2 selectSuggestedTopic_gateway_failure [OF h1 h2, where J = exJson
        and e = RequestFailed and e' = RequestFailed and suggestions = "Inr []"
        and newTopic = "''Lenses''"]
    by (simp add: h3 h4 exJson_def exProfile_def fallbackPath_def)
qed

section \<open>Average accuracy\<close>




text \<open>
  The product and the quotient are rounded to doubles before \<open>Math.round\<close>, so
  the value can be one less than the exactly rounded percentage: eight quizzes with 23
  points give \<open>57.49999999999999\<close>, hence 57, where \<open>23 / 40 * 100 = 57.5\<close>
  rounds to 58.
\<close>

lemma avgAccuracy_of_double_rounding:
  "avgAccuracy_of [5, 5, 5, 5, 3, 0, 0, 0] = 57
   \<and> js_mul (js_div 23 40) 100 = 8092405580431359 / 140737488355328
   \<and> Math_round (23 / 40 * 100) = 58"
  by code_simp



section \<open>Session time\<close>

lemma elapsedMinutes_exact:
  assumes "start \<le> now" and "now - start < 2 ^ 52"
  shows "elapsedMinutes now start = (now - start + 30000) div 60000"
  unfolding elapsedMinutes_def using assms by (intro round_div_60000) simp_all

text \<open>
  C7, counterexample.  The specification has sessions shorter than a minute add 0
  minutes; a session of 31 seconds adds one.
\<close>

theorem endSession_counterexample:
  "elapsedMinutes 31000 0 = 1
   \<and> sessionStartTime (handleSelectModule (exModule ''a'' ''Reflection'') 0 exState) = 0
   \<and> map_option (\<lambda>p. timeSpentMinutes (performance p)) (profile exState) = Some 0
   \<and> map_option (\<lambda>p. timeSpentMinutes (performance p))
        (profile (handleEndSession 31000
                    (handleSelectModule (exModule ''a'' ''Reflection'') 0 exState))) = Some 1"
proof -
  have e: "elapsedMinutes 31000 0 = 1"
    using elapsedMinutes_exact [of 0 31000] by simp
  then show ?thesis
    by (simp add: handleEndSession_def handleSelectModule_def exState_def exProfile_def Let_def)
qed

text \<open>
  C7, as the code has it.  A tutoring session started by \<open>selectModule\<close> at time \<open>start\<close>
  with a profile present and ended at \<open>now\<close>, \<open>start \<le> now\<close> (times in
  milliseconds, the session shorter than \<open>2^52\<close> ms): \<open>endSession\<close> adds
  \<open>Math.round((now - start) / 60000)\<close> minutes to \<open>timeSpentMinutes\<close>, which is
  \<open>(now - start + 30000) div 60000\<close>, a non-negative integer that is 0 exactly
  when the session lasted less than 30 seconds; it changes nothing else but the view,
  which becomes Feedback, and in particular does not write to storage.
\<close>

theorem endSession_adds_rounded_minutes:
  assumes "profile s0 = Some p" and "start \<le> now" and "now - start < 2 ^ 52"
  shows "handleEndSession now (handleSelectModule m start s0)
       = (handleSelectModule m start s0)
           \<lparr>profile := Some (p\<lparr>performance := (performance p)
               \<lparr>timeSpentMinutes := timeSpentMinutes (performance p) + elapsedMinutes now start\<rparr>\<rparr>),
            view := FEEDBACK\<rparr>
     \<and> elapsedMinutes now start = (now - start + 30000) div 60000
     \<and> 0 \<le> elapsedMinutes now start
     \<and> (elapsedMinutes now start = 0 \<longleftrightarrow> now - start < 30000)
     \<and> localStorage (handleEndSession now (handleSelectModule m start s0)) = localStorage s0
     \<and> view (handleEndSession now (handleSelectModule m start s0)) = FEEDBACK"
proof -
  have e: "elapsedMinutes now start = (now - start + 30000) div 60000"
    using assms(2,3) by (rule elapsedMinutes_exact)
  have nn: "0 \<le> elapsedMinutes now start"
    using assms(2) by (simp add: e)
  have "0 < (now - start + 30000) div 60000 \<longleftrightarrow> 60000 \<le> now - start + 30000"
    by (rule pos_imp_zdiv_pos_iff) simp
  with nn have z: "elapsedMinutes now start = 0 \<longleftrightarrow> now - start < 30000"
    unfolding e by linarith
  have h: "handleEndSession now (handleSelectModule m start s0)
       = (handleSelectModule m start s0)
           \<lparr>profile := Some (p\<lparr>performance := (performance p)
               \<lparr>timeSpentMinutes := timeSpentMinutes (performance p) + elapsedMinutes now start\<rparr>\<rparr>),
            view := FEEDBACK\<rparr>"
    using assms(1) by (simp add: handleEndSession_def handleSelectModule_def Let_def)
  have st: "localStorage (handleEndSession now (handleSelectModule m start s0)) = localStorage s0"
    by (simp add: h) (simp add: handleSelectModule_def)
  have v: "view (handleEndSession now (handleSelectModule m start s0)) = FEEDBACK"
    by (simp add: h)
  from h e nn z st v show ?thesis by blast
qed

theorem endSession_adds_rounded_minutes_witness:
  "profile exState = Some exProfile \<and> (5000::int) \<le> 95000 \<and> (95000::int) - 5000 < 2 ^ 52
   \<and> handleEndSession 95000 (handleSelectModule (exModule ''b'' ''Refraction'') 5000 exState)
       = (handleSelectModule (exModule ''b'' ''Refraction'') 5000 exState)
           \<lparr>profile := Some (exProfile\<lparr>performance := (performance exProfile)
               \<lparr>timeSpentMinutes := 2\<rparr>\<rparr>),
            view := FEEDBACK\<rparr>
   \<and> elapsedMinutes 95000 5000 = 2"
proof -
  have h1: "profile exState = Some exProfile" by (simp add: exState_def)
  have h2: "(5000::int) \<le> 95000" by simp
  have h3: "(95000::int) - 5000 < 2 ^ 52" by simp
  have t: "timeSpentMinutes (performance exProfile) = 0" by (simp add: exProfile_def)
  show ?thesis
    using h1 endSession_adds_rounded_minutes [OF h1 h2 h3, of "exModule ''b'' ''Refraction''"]
    by (simp add: t)
qed

end
